theory Spec2Isabelle
  imports Main "HOL-Library.Word"
begin

unbundle bit_operations_syntax

section \<open>Serialization formats and outcomes\<close>

text \<open>
  The enumeration \<^verbatim>\<open>SerializeFormat\<close> of \<^verbatim>\<open>include/extensible.h\<close>.
\<close>

datatype SerializeFormat = FORMAT_USER | FORMAT_INTERNAL | FORMAT_NETWORK | FORMAT_PERSIST

text \<open>
  What a call can do instead of returning. \<^verbatim>\<open>ModuleException\<close> is thrown by
  \<^verbatim>\<open>JoinTimer::FromString\<close>, \<^verbatim>\<open>std::out_of_range\<close> by \<^verbatim>\<open>std::vector::at\<close>.
  A read past the end of a string buffer is undefined behaviour in C++; it is kept as an
  outcome of its own, so that nothing is derived from what such a read would return.
\<close>

datatype failure = ModuleException string | out_of_range | undefined_behaviour

section \<open>The escaping codec\<close>

definition NUL :: char where
  "NUL = CHR 0x00"

definition ESC :: char where
  "ESC = CHR 0x5C"

text \<open>
  Modelled from the spec: the bodies of \<^verbatim>\<open>Ext::EscapeNulls\<close> and
  \<^verbatim>\<open>Ext::SplitUnescapeNulls\<close> are not among the sources, which only declare them
  (\<^verbatim>\<open>include/extensible.h\<close>, lines 200 to 204). The spec says that a literal NUL or
  escape-marker byte inside a field is replaced by a two-byte escape sequence, and that
  decoding splits on unescaped separators and then unescapes each piece. The spec names
  neither the marker nor the second byte of each sequence: the model takes the backslash
  as marker, writes NUL as marker followed by the digit zero, and the marker as two
  markers. An output stream is modelled by the text written to it.
\<close>

fun escape_byte :: "char \<Rightarrow> string" where
  "escape_byte c = (if c = NUL then [ESC, CHR ''0''] else if c = ESC then [ESC, ESC] else [c])"

definition EscapeNulls :: "string \<Rightarrow> string" where
  "EscapeNulls s = concat (map escape_byte s)"

text \<open>
  Modelled from the spec: splitting on unescaped separators. The byte after a marker
  belongs to the piece whatever it is; each unescaped NUL ends a piece. Bytes after the
  last separator form a last piece when there are any (the spec is silent on texts that
  no encoding produces, and none of the theorems below depends on this choice).
\<close>

fun split_pieces :: "string \<Rightarrow> string \<Rightarrow> string list" where
  "split_pieces piece [] = (if piece = [] then [] else [piece])"
| "split_pieces piece [c] = (if c = NUL then [piece] else [piece @ [c]])"
| "split_pieces piece (c # d # ds) =
     (if c = NUL then piece # split_pieces [] (d # ds)
      else if c = ESC then split_pieces (piece @ [c, d]) ds
      else split_pieces (piece @ [c]) (d # ds))"

text \<open>
  Modelled from the spec: unescaping one piece. A marker followed by the digit zero is
  a NUL; a marker followed by any other byte is that byte; a marker that ends the piece
  is kept.
\<close>

fun UnescapeNulls :: "string \<Rightarrow> string" where
  "UnescapeNulls [] = []"
| "UnescapeNulls [c] = [c]"
| "UnescapeNulls (c # d # ds) =
     (if c = ESC then (if d = CHR ''0'' then NUL else d) # UnescapeNulls ds
      else c # UnescapeNulls (d # ds))"

definition SplitUnescapeNulls :: "string \<Rightarrow> string list" where
  "SplitUnescapeNulls str = map UnescapeNulls (split_pieces [] str)"

text \<open>
  The packing that every composite codec of the header performs: each field escaped and
  followed by the separator (\<^verbatim>\<open>EscapeNulls(..., os) << '\0'\<close>).
\<close>

definition encode_fields :: "string list \<Rightarrow> string" where
  "encode_fields xs = concat (map (\<lambda>s. EscapeNulls s @ [NUL]) xs)"

section \<open>Extension items and holders\<close>

text \<open>
  \<^verbatim>\<open>ExtensionItem::ExtensibleType\<close> and the two data members that identify an item:
  the key it is registered under and the kind of holder it is valid for.
\<close>

datatype ExtensibleType = EXT_USER | EXT_CHANNEL | EXT_MEMBERSHIP

record ExtensionItem =
  key :: string
  exttype :: ExtensibleType

section \<open>The value codecs\<close>

text \<open>
  \<^verbatim>\<open>Ext::SerializeBase<T>\<close>: a codec is its two virtual functions. The holder and
  the item are passed as pointers that may be null, hence the options. \<open>serialize\<close>
  gives the text the function writes to its stream. \<open>unserialize\<close> gives \<open>Inl\<close> when the
  call does not return, \<open>Inr None\<close> when it returns the null pointer and \<open>Inr (Some v)\<close>
  when it returns a new object of value \<open>v\<close>.
\<close>

record ('a, 'h) SerializeBase =
  serialize :: "SerializeFormat \<Rightarrow> 'a \<Rightarrow> 'h option \<Rightarrow> ExtensionItem option \<Rightarrow> string"
  unserialize ::
    "SerializeFormat \<Rightarrow> string \<Rightarrow> 'h option \<Rightarrow> ExtensionItem option \<Rightarrow> failure + 'a option"

definition serializeStr ::
  "('a, 'h) SerializeBase \<Rightarrow> SerializeFormat \<Rightarrow> 'a \<Rightarrow> 'h option \<Rightarrow> ExtensionItem option \<Rightarrow> string"
where
  "serializeStr ser format v container extItem = serialize ser format v container extItem"

text \<open>
  The primary template \<^verbatim>\<open>Ext::Serialize<T>\<close> forwards to the two functions that a
  user-defined type supplies, \<^verbatim>\<open>T::Serialize\<close> and \<^verbatim>\<open>T::FromString\<close>.
\<close>

definition Serialize_user_defined ::
  "(SerializeFormat \<Rightarrow> 'a \<Rightarrow> 'h option \<Rightarrow> ExtensionItem option \<Rightarrow> string) \<Rightarrow>
   (SerializeFormat \<Rightarrow> string \<Rightarrow> 'h option \<Rightarrow> ExtensionItem option \<Rightarrow> failure + 'a option) \<Rightarrow>
   ('a, 'h) SerializeBase"
where
  "Serialize_user_defined T_Serialize T_FromString =
     \<lparr> serialize = T_Serialize, unserialize = T_FromString \<rparr>"

text \<open>\<^verbatim>\<open>Ext::Serialize<std::string>\<close>.\<close>

definition Serialize_string :: "(string, 'h) SerializeBase" where
  "Serialize_string =
     \<lparr> serialize = (\<lambda>format v container extItem. v),
       unserialize = (\<lambda>format v container extItem. Inr (Some v)) \<rparr>"

text \<open>
  \<^verbatim>\<open>Ext::Serialize<User*>\<close> and \<^verbatim>\<open>Ext::Serialize<LocalUser*>\<close>, the two stubs: nothing
  is written, and the null pointer is returned.
\<close>

definition Serialize_User_ptr :: "('a, 'h) SerializeBase" where
  "Serialize_User_ptr =
     \<lparr> serialize = (\<lambda>format v container extItem. []),
       unserialize = (\<lambda>format v container extItem. Inr None) \<rparr>"

subsection \<open>Containers\<close>

text \<open>
  What \<^verbatim>\<open>Ext::SerializeContainer<T>\<close> needs of the container type \<^verbatim>\<open>T\<close>: the
  elements from \<^verbatim>\<open>begin()\<close> to \<^verbatim>\<open>end()\<close>, the container that \<^verbatim>\<open>new T\<close>
  makes, and the insertion of \<^verbatim>\<open>Ext::Inserter<T>\<close>.
\<close>

record ('c, 'a) Inserter =
  elements :: "'c \<Rightarrow> 'a list"
  new_container :: 'c
  insert_value :: "'c \<Rightarrow> 'a \<Rightarrow> 'c"

text \<open>
  The loop of \<^verbatim>\<open>SerializeContainer::unserialize\<close>: every piece goes through the
  element codec; a null result is skipped, an exception leaves the loop.
\<close>

fun unserialize_values ::
  "('c, 'a) Inserter \<Rightarrow> ('a, 'h) SerializeBase \<Rightarrow> SerializeFormat \<Rightarrow> 'h option \<Rightarrow>
   ExtensionItem option \<Rightarrow> 'c \<Rightarrow> string list \<Rightarrow> failure + 'c"
where
  "unserialize_values inserter ser format container extItem cont [] = Inr cont"
| "unserialize_values inserter ser format container extItem cont (it # its) =
     (case unserialize ser format it container extItem of
        Inl ex \<Rightarrow> Inl ex
      | Inr None \<Rightarrow> unserialize_values inserter ser format container extItem cont its
      | Inr (Some o') \<Rightarrow>
          unserialize_values inserter ser format container extItem
            (insert_value inserter cont o') its)"

definition SerializeContainer ::
  "('c, 'a) Inserter \<Rightarrow> ('a, 'h) SerializeBase \<Rightarrow> ('c, 'h) SerializeBase"
where
  "SerializeContainer inserter ser =
     \<lparr> serialize = (\<lambda>format v container extItem.
         concat (map (\<lambda>it. EscapeNulls (serializeStr ser format it container extItem) @ [NUL])
           (elements inserter v))),
       unserialize = (\<lambda>format v container extItem.
         (case unserialize_values inserter ser format container extItem
                 (new_container inserter) (SplitUnescapeNulls v) of
            Inl ex \<Rightarrow> Inl ex
          | Inr cont \<Rightarrow> Inr (Some cont))) \<rparr>"

text \<open>
  The primary \<^verbatim>\<open>Ext::Inserter<T>\<close>, used for \<^verbatim>\<open>std::vector\<close> and \<^verbatim>\<open>std::deque\<close>:
  \<^verbatim>\<open>push_back\<close>.
\<close>

definition Inserter_push_back :: "('a list, 'a) Inserter" where
  "Inserter_push_back =
     \<lparr> elements = (\<lambda>v. v), new_container = [], insert_value = (\<lambda>cont v. cont @ [v]) \<rparr>"

definition Serialize_vector :: "('a, 'h) SerializeBase \<Rightarrow> ('a list, 'h) SerializeBase" where
  "Serialize_vector ser = SerializeContainer Inserter_push_back ser"

subsection \<open>Pairs\<close>

text \<open>\<^verbatim>\<open>std::vector::at\<close>: the element, or \<^verbatim>\<open>std::out_of_range\<close>.\<close>

definition at :: "'a list \<Rightarrow> nat \<Rightarrow> failure + 'a" where
  "at xs i = (if i < length xs then Inr (xs ! i) else Inl out_of_range)"

text \<open>
  \<^verbatim>\<open>Ext::Serialize<std::pair<T1, T2>>\<close>. In \<open>unserialize\<close> the two statements run in
  order: the first field is fetched and parsed before the second is fetched.
\<close>

definition Serialize_pair ::
  "('a, 'h) SerializeBase \<Rightarrow> ('b, 'h) SerializeBase \<Rightarrow> ('a \<times> 'b, 'h) SerializeBase"
where
  "Serialize_pair ser1 ser2 =
     \<lparr> serialize = (\<lambda>format v container extItem.
         EscapeNulls (serializeStr ser1 format (fst v) container extItem) @ [NUL]
         @ EscapeNulls (serializeStr ser2 format (snd v) container extItem) @ [NUL]),
       unserialize = (\<lambda>format v container extItem.
         if v = [] then Inr None
         else
           let values = SplitUnescapeNulls v in
           (case at values 0 of
              Inl ex \<Rightarrow> Inl ex
            | Inr s1 \<Rightarrow>
               (case unserialize ser1 format s1 container extItem of
                  Inl ex \<Rightarrow> Inl ex
                | Inr v1 \<Rightarrow>
                   (case at values 1 of
                      Inl ex \<Rightarrow> Inl ex
                    | Inr s2 \<Rightarrow>
                       (case unserialize ser2 format s2 container extItem of
                          Inl ex \<Rightarrow> Inl ex
                        | Inr v2 \<Rightarrow>
                           (case v1 of
                              None \<Rightarrow> Inr None
                            | Some a \<Rightarrow>
                               (case v2 of
                                  None \<Rightarrow> Inr None
                                | Some b \<Rightarrow> Inr (Some (a, b))))))))) \<rparr>"

subsection \<open>Plain data\<close>

text \<open>
  \<^verbatim>\<open>Ext::SerializePrimitive<T>\<close> copies the object representation of a value:
  \<^verbatim>\<open>sizeof(T)\<close> bytes at its address. That representation belongs to the compiler
  and the platform, not to the sources, so it is a parameter: the size, the bytes of a
  value, and the value that a run of \<^verbatim>\<open>sizeof(T)\<close> bytes is read as (none when the
  bytes are no representation of a value of the type).
\<close>

record 'a layout =
  sizeof :: nat
  object_bytes :: "'a \<Rightarrow> string"
  from_object_bytes :: "string \<Rightarrow> 'a option"

definition layout_ok :: "'a layout \<Rightarrow> bool" where
  "layout_ok T \<longleftrightarrow>
     (\<forall>v. length (object_bytes T v) = sizeof T
        \<and> from_object_bytes T (object_bytes T v) = Some v)"

text \<open>
  \<open>unserialize\<close> reads \<^verbatim>\<open>sizeof(T)\<close> bytes from \<^verbatim>\<open>value.c_str()\<close>, a buffer that
  holds the bytes of the string and one terminating NUL. A longer read is outside the
  buffer.
\<close>

definition SerializePrimitive :: "'a layout \<Rightarrow> ('a, 'h) SerializeBase" where
  "SerializePrimitive T =
     \<lparr> serialize = (\<lambda>format v container extItem. object_bytes T v),
       unserialize = (\<lambda>format v container extItem.
         let c_str = v @ [NUL] in
         if length c_str < sizeof T then Inl undefined_behaviour
         else
           (case from_object_bytes T (take (sizeof T) c_str) of
              None \<Rightarrow> Inl undefined_behaviour
            | Some x \<Rightarrow> Inr (Some x))) \<rparr>"

subsection \<open>Numbers and booleans\<close>

text \<open>
  \<^verbatim>\<open>Ext::SerializeNumeric<T>\<close>. The conversions \<^verbatim>\<open>ConvNumeric\<close> and
  \<^verbatim>\<open>ConvToNum<T>\<close> are parameters here, as they are functions of the type \<^verbatim>\<open>T\<close>.
\<close>

definition SerializeNumeric ::
  "'a layout \<Rightarrow> ('a \<Rightarrow> string) \<Rightarrow> (string \<Rightarrow> 'a) \<Rightarrow> ('a, 'h) SerializeBase"
where
  "SerializeNumeric T ConvNumeric ConvToNum =
     \<lparr> serialize = (\<lambda>format v container extItem.
         if format = FORMAT_USER then ConvNumeric v
         else serialize (SerializePrimitive T) format v container extItem),
       unserialize = (\<lambda>format v container extItem.
         if format = FORMAT_USER then Inr (Some (ConvToNum v))
         else unserialize (SerializePrimitive T) format v container extItem) \<rparr>"

text \<open>
  The object representation of the fixed-width integers: the bytes of the two's
  complement value, in the byte order of the platform. The size is the width in bytes
  (1, 2, 4 and 8 for the widths 8, 16, 32 and 64 of the header).
\<close>

datatype byte_order = LittleEndian | BigEndian

fun word_bytes :: "nat \<Rightarrow> 'a::len word \<Rightarrow> string" where
  "word_bytes 0 w = []"
| "word_bytes (Suc n) w = char_of (unat w) # word_bytes n (drop_bit 8 w)"

fun bytes_word :: "string \<Rightarrow> 'a::len word" where
  "bytes_word [] = 0"
| "bytes_word (c # cs) = of_char c OR push_bit 8 (bytes_word cs)"

definition int_layout :: "byte_order \<Rightarrow> 'a::len word layout" where
  "int_layout order =
     \<lparr> sizeof = (LENGTH('a) + 7) div 8,
       object_bytes = (\<lambda>w.
         case order of
           LittleEndian \<Rightarrow> word_bytes ((LENGTH('a) + 7) div 8) w
         | BigEndian \<Rightarrow> rev (word_bytes ((LENGTH('a) + 7) div 8) w)),
       from_object_bytes = (\<lambda>bs.
         case order of
           LittleEndian \<Rightarrow> Some (bytes_word bs)
         | BigEndian \<Rightarrow> Some (bytes_word (rev bs))) \<rparr>"

text \<open>
  Modelled from the spec: the conversions \<^verbatim>\<open>ConvNumeric\<close> and \<^verbatim>\<open>ConvToNum\<close> are
  called by the header and defined outside the sources. The spec says that the
  \<^verbatim>\<open>UserDisplay\<close> format renders decimal text and parses decimal text. The model writes
  the decimal digits, after a minus sign for a negative value, and reads an optional minus
  sign and the digits that follow it, up to the first byte that is no digit.
\<close>

fun decimal_digits :: "nat \<Rightarrow> string" where
  "decimal_digits n =
     (if n < 10 then [char_of (48 + n)]
      else decimal_digits (n div 10) @ [char_of (48 + n mod 10)])"

declare decimal_digits.simps [simp del]

definition decimal_text :: "int \<Rightarrow> string" where
  "decimal_text i = (if i < 0 then CHR ''-'' # decimal_digits (nat (- i)) else decimal_digits (nat i))"

definition is_digit :: "char \<Rightarrow> bool" where
  "is_digit c \<longleftrightarrow> (48::nat) \<le> of_char c \<and> (of_char c :: nat) \<le> 57"

fun parse_digits :: "nat \<Rightarrow> string \<Rightarrow> nat" where
  "parse_digits acc [] = acc"
| "parse_digits acc (c # cs) =
     (if is_digit c then parse_digits (acc * 10 + (of_char c - 48)) cs else acc)"

fun parse_decimal :: "string \<Rightarrow> int" where
  "parse_decimal [] = 0"
| "parse_decimal (c # cs) =
     (if c = CHR ''-'' then - int (parse_digits 0 cs) else int (parse_digits 0 (c # cs)))"

definition ConvNumeric :: "bool \<Rightarrow> 'a::len word \<Rightarrow> string" where
  "ConvNumeric is_signed w = decimal_text (if is_signed then sint w else uint w)"

definition ConvToNum :: "string \<Rightarrow> 'a::len word" where
  "ConvToNum s = word_of_int (parse_decimal s)"

text \<open>
  The eight specializations \<^verbatim>\<open>Ext::Serialize<int8_t>\<close> to \<^verbatim>\<open>Ext::Serialize<uint64_t>\<close>
  are \<open>Serialize_int\<close> at the word types of 8, 16, 32 and 64 bits, signed or not.
\<close>

definition Serialize_int :: "byte_order \<Rightarrow> bool \<Rightarrow> ('a::len word, 'h) SerializeBase" where
  "Serialize_int order is_signed =
     SerializeNumeric (int_layout order) (ConvNumeric is_signed) ConvToNum"

type_synonym int32_t = "32 word"

text \<open>
  A \<^verbatim>\<open>bool\<close> is one byte, 1 for true and 0 for false; no other byte is the
  representation of a \<^verbatim>\<open>bool\<close>.
\<close>

definition bool_layout :: "bool layout" where
  "bool_layout =
     \<lparr> sizeof = 1,
       object_bytes = (\<lambda>b. [if b then CHR 0x01 else NUL]),
       from_object_bytes = (\<lambda>bs.
         if bs = [CHR 0x01] then Some True else if bs = [NUL] then Some False else None) \<rparr>"

text \<open>
  Modelled from the spec: \<^verbatim>\<open>ConvNumeric\<close> and \<^verbatim>\<open>ConvToNum<bool>\<close> at the type
  \<^verbatim>\<open>bool\<close>, defined outside the sources: the decimal text of 1 or 0, and whether the
  decimal number read is not zero.
\<close>

definition ConvNumeric_bool :: "bool \<Rightarrow> string" where
  "ConvNumeric_bool b = decimal_text (if b then 1 else 0)"

definition ConvToNum_bool :: "string \<Rightarrow> bool" where
  "ConvToNum_bool s \<longleftrightarrow> parse_decimal s \<noteq> 0"

text \<open>
  \<^verbatim>\<open>Ext::Serialize<bool>\<close> overrides \<open>serialize\<close> only; \<open>unserialize\<close> is the one of
  \<^verbatim>\<open>SerializeNumeric<bool>\<close>.
\<close>

definition Serialize_bool :: "(bool, 'h) SerializeBase" where
  "Serialize_bool =
     \<lparr> serialize = (\<lambda>format v container extItem.
         if format = FORMAT_USER then (if v then ''true'' else ''false'')
         else serialize (SerializeNumeric bool_layout ConvNumeric_bool ConvToNum_bool)
                format v container extItem),
       unserialize =
         unserialize (SerializeNumeric bool_layout ConvNumeric_bool ConvToNum_bool) \<rparr>"

subsection \<open>Containers of other types\<close>

text \<open>
  The header specializes \<^verbatim>\<open>Ext::Inserter\<close> for \<^verbatim>\<open>insp::flat_map\<close> and
  \<^verbatim>\<open>insp::flat_set\<close> only. For every other container type, \<^verbatim>\<open>insp::flat_multiset\<close>
  and \<^verbatim>\<open>insp::flat_multimap\<close> among them, \<^verbatim>\<open>Ext::SerializeContainer\<close> holds the
  primary \<^verbatim>\<open>Ext::Inserter<T>\<close>, which calls \<^verbatim>\<open>push_back\<close> of the container. Those
  classes are declared outside the sources, so what the type gives are parameters: the
  elements in the order of iteration, the new container, and its \<^verbatim>\<open>push_back\<close>.
\<close>

definition Inserter_primary :: "('c \<Rightarrow> 'a list) \<Rightarrow> 'c \<Rightarrow> ('c \<Rightarrow> 'a \<Rightarrow> 'c) \<Rightarrow> ('c, 'a) Inserter" where
  "Inserter_primary begin_end new_T push_back =
     \<lparr> elements = begin_end, new_container = new_T, insert_value = push_back \<rparr>"

subsection \<open>Sets and maps\<close>

text \<open>
  Modelled from the spec: the classes \<^verbatim>\<open>insp::flat_set\<close> and \<^verbatim>\<open>insp::flat_map\<close>, for
  which the header specializes \<^verbatim>\<open>Ext::Inserter\<close> to call \<^verbatim>\<open>insert\<close>, are declared
  outside the sources. The spec says that elements are put into a new container with the
  natural insertion of the container. The model keeps such a container as the list of its
  elements in the order of iteration, sorted by the comparison \<open>lt\<close> of the container;
  insertion ignores a value that is equivalent to an element of the container, and puts
  any other value before the first element that is greater. The entries of a map are
  pairs, compared by their keys.
\<close>

fun upper_insert :: "('a \<Rightarrow> 'a \<Rightarrow> bool) \<Rightarrow> 'a \<Rightarrow> 'a list \<Rightarrow> 'a list" where
  "upper_insert lt v [] = [v]"
| "upper_insert lt v (x # xs) =
     (if lt v x then v # x # xs else x # upper_insert lt v xs)"

definition Inserter_flat_set :: "('a \<Rightarrow> 'a \<Rightarrow> bool) \<Rightarrow> ('a list, 'a) Inserter" where
  "Inserter_flat_set lt =
     \<lparr> elements = (\<lambda>v. v), new_container = [],
       insert_value = (\<lambda>cont v.
         if list_ex (\<lambda>x. \<not> lt x v \<and> \<not> lt v x) cont then cont
         else upper_insert lt v cont) \<rparr>"

definition key_comp :: "('k \<Rightarrow> 'k \<Rightarrow> bool) \<Rightarrow> 'k \<times> 'v \<Rightarrow> 'k \<times> 'v \<Rightarrow> bool" where
  "key_comp lt a b = lt (fst a) (fst b)"

definition Inserter_flat_map :: "('k \<Rightarrow> 'k \<Rightarrow> bool) \<Rightarrow> (('k \<times> 'v) list, 'k \<times> 'v) Inserter" where
  "Inserter_flat_map lt = Inserter_flat_set (key_comp lt)"

text \<open>
  The order that iteration over a set or a map follows: each element is less than every
  later one.
\<close>

definition unique_sorted :: "('a \<Rightarrow> 'a \<Rightarrow> bool) \<Rightarrow> 'a list \<Rightarrow> bool" where
  "unique_sorted lt xs = sorted_wrt (\<lambda>x y. lt x y \<and> \<not> lt y x) xs"

section \<open>The extension store\<close>

text \<open>
  \<^verbatim>\<open>class Extensible\<close>: the map from items to untyped pointers, and the flag set by
  \<^verbatim>\<open>cull\<close>. A stored pointer is modelled by the object it owns, \<open>None\<close> for the null
  pointer, so the identity of pointers is not part of the model. \<open>this\<close> is the address
  of the holder, which is what a pointer to the holder keeps.
\<close>

record 'v Extensible =
  this :: nat
  extensions :: "ExtensionItem \<rightharpoonup> 'v option"
  culled :: bool

text \<open>
  Modelled from the spec: the bodies of \<^verbatim>\<open>ExtensionItem::get_raw\<close>, \<^verbatim>\<open>set_raw\<close> and
  \<^verbatim>\<open>unset_raw\<close> are not among the sources. The header declares them as "Get the item
  from the internal map", "Set the item in the internal map; returns old value" and
  "Remove the item from the internal map; returns old value"; the spec says that \<open>set\<close>
  returns the previous value, if any, and that \<open>unset\<close> removes and returns, and does not
  itself free.
\<close>

definition get_raw :: "ExtensionItem \<Rightarrow> ('v, 'm) Extensible_scheme \<Rightarrow> 'v option" where
  "get_raw self container =
     (case extensions container self of None \<Rightarrow> None | Some ptr \<Rightarrow> ptr)"

definition set_raw ::
  "ExtensionItem \<Rightarrow> ('v, 'm) Extensible_scheme \<Rightarrow> 'v option \<Rightarrow>
   'v option \<times> ('v, 'm) Extensible_scheme"
where
  "set_raw self container ptr =
     (get_raw self container,
      container\<lparr>extensions := (extensions container)(self \<mapsto> ptr)\<rparr>)"

definition unset_raw ::
  "ExtensionItem \<Rightarrow> ('v, 'm) Extensible_scheme \<Rightarrow> 'v option \<times> ('v, 'm) Extensible_scheme"
where
  "unset_raw self container =
     (get_raw self container,
      container\<lparr>extensions := (extensions container)(self := None)\<rparr>)"

text \<open>
  Modelled from the spec: \<^verbatim>\<open>stdalgo::defaultdeleter\<close>, the default of the template
  parameter \<^verbatim>\<open>Del\<close>, is declared outside the sources. The spec says that \<open>free\<close>
  invokes the destructor semantics of the type. A deleter is modelled by what it does to
  the list of the objects destroyed so far; the default one destroys the object of a
  pointer that is not null.
\<close>

definition defaultdeleter :: "'v option \<Rightarrow> 'v list \<Rightarrow> 'v list" where
  "defaultdeleter ptr destroyed =
     (case ptr of None \<Rightarrow> destroyed | Some v \<Rightarrow> destroyed @ [v])"

subsection \<open>Typed items\<close>

text \<open>
  \<^verbatim>\<open>UnserializableSimpleExtItem<T, Del>\<close>. The template parameter \<^verbatim>\<open>Del\<close> is the
  first argument. The functions return nothing in the source; the model returns the
  holder and the list of destroyed objects as they are after the call.
\<close>

definition UnserializableSimpleExtItem_get ::
  "ExtensionItem \<Rightarrow> ('v, 'm) Extensible_scheme \<Rightarrow> 'v option"
where
  "UnserializableSimpleExtItem_get self container = get_raw self container"

text \<open>\<^verbatim>\<open>set(Extensible* container, const T& value)\<close>, which stores a copy.\<close>

definition UnserializableSimpleExtItem_set ::
  "('v option \<Rightarrow> 'v list \<Rightarrow> 'v list) \<Rightarrow> ExtensionItem \<Rightarrow> ('v, 'm) Extensible_scheme \<Rightarrow>
   'v list \<Rightarrow> 'v \<Rightarrow> ('v, 'm) Extensible_scheme \<times> 'v list"
where
  "UnserializableSimpleExtItem_set Del self container destroyed v =
     (let ptr = Some v;
          (old, container') = set_raw self container ptr
      in (container', Del old destroyed))"

text \<open>\<^verbatim>\<open>set(Extensible* container, T* value)\<close>, which stores the pointer.\<close>

definition UnserializableSimpleExtItem_set_ptr ::
  "('v option \<Rightarrow> 'v list \<Rightarrow> 'v list) \<Rightarrow> ExtensionItem \<Rightarrow> ('v, 'm) Extensible_scheme \<Rightarrow>
   'v list \<Rightarrow> 'v option \<Rightarrow> ('v, 'm) Extensible_scheme \<times> 'v list"
where
  "UnserializableSimpleExtItem_set_ptr Del self container destroyed ptr =
     (let (old, container') = set_raw self container ptr
      in (container', Del old destroyed))"

definition UnserializableSimpleExtItem_unset ::
  "('v option \<Rightarrow> 'v list \<Rightarrow> 'v list) \<Rightarrow> ExtensionItem \<Rightarrow> ('v, 'm) Extensible_scheme \<Rightarrow>
   'v list \<Rightarrow> ('v, 'm) Extensible_scheme \<times> 'v list"
where
  "UnserializableSimpleExtItem_unset Del self container destroyed =
     (let (old, container') = unset_raw self container
      in (container', Del old destroyed))"

definition UnserializableSimpleExtItem_free ::
  "('v option \<Rightarrow> 'v list \<Rightarrow> 'v list) \<Rightarrow> 'v list \<Rightarrow> 'v option \<Rightarrow> 'v list"
where
  "UnserializableSimpleExtItem_free Del destroyed item = Del item destroyed"

text \<open>
  \<^verbatim>\<open>SimpleExtItem<T, Del>\<close>, with its member \<open>serializer\<close> as first argument.
  \<open>unserialize\<close> gives \<open>Inl\<close> when the codec throws: the exception leaves the function
  before anything is stored.
\<close>

definition SimpleExtItem_serialize ::
  "('v, ('v, 'm) Extensible_scheme) SerializeBase \<Rightarrow> ExtensionItem \<Rightarrow> SerializeFormat \<Rightarrow>
   ('v, 'm) Extensible_scheme \<Rightarrow> 'v option \<Rightarrow> string"
where
  "SimpleExtItem_serialize serializer self format container item =
     (if item = None \<or> format = FORMAT_NETWORK then []
      else
        (case item of
           None \<Rightarrow> []
         | Some v \<Rightarrow> serializeStr serializer format v (Some container) (Some self)))"

definition SimpleExtItem_unserialize ::
  "('v, ('v, 'm) Extensible_scheme) SerializeBase \<Rightarrow> ('v option \<Rightarrow> 'v list \<Rightarrow> 'v list) \<Rightarrow>
   ExtensionItem \<Rightarrow> SerializeFormat \<Rightarrow> ('v, 'm) Extensible_scheme \<Rightarrow> 'v list \<Rightarrow> string \<Rightarrow>
   failure + ('v, 'm) Extensible_scheme \<times> 'v list"
where
  "SimpleExtItem_unserialize serializer Del self format container destroyed v =
     (if format = FORMAT_NETWORK then Inr (container, destroyed)
      else
        (case unserialize serializer format v (Some container) (Some self) of
           Inl ex \<Rightarrow> Inl ex
         | Inr None \<Rightarrow> Inr (container, destroyed)
         | Inr (Some t) \<Rightarrow>
             Inr (UnserializableSimpleExtItem_set_ptr Del self container destroyed (Some t))))"

subsection \<open>The integer item\<close>

text \<open>
  \<^verbatim>\<open>LocalIntExt\<close> keeps an \<^verbatim>\<open>intptr_t\<close> in the place of the pointer: zero is the null
  pointer.
\<close>

definition intptr_of :: "int option \<Rightarrow> int" where
  "intptr_of ptr = (case ptr of None \<Rightarrow> 0 | Some i \<Rightarrow> i)"

definition ptr_of_intptr :: "int \<Rightarrow> int option" where
  "ptr_of_intptr i = (if i = 0 then None else Some i)"

text \<open>
  Modelled from the spec: the bodies of \<^verbatim>\<open>LocalIntExt::get\<close> and \<^verbatim>\<open>LocalIntExt::set\<close>
  are not among the sources, which declare them with the result type \<^verbatim>\<open>intptr_t\<close>. By
  the spec the item is a variant of the simple item for one integer per holder, \<open>set\<close>
  returns the previous value and \<open>unset\<close> removes the entry; the header defines \<open>unset\<close>
  as \<open>set\<close> with the value zero, so \<open>set\<close> with zero removes the entry.
\<close>

definition LocalIntExt_get :: "ExtensionItem \<Rightarrow> (int, 'm) Extensible_scheme \<Rightarrow> int" where
  "LocalIntExt_get self container = intptr_of (get_raw self container)"

definition LocalIntExt_set ::
  "ExtensionItem \<Rightarrow> (int, 'm) Extensible_scheme \<Rightarrow> int \<Rightarrow> int \<times> (int, 'm) Extensible_scheme"
where
  "LocalIntExt_set self container v =
     (if v \<noteq> 0 then
        (let (old, container') = set_raw self container (ptr_of_intptr v)
         in (intptr_of old, container'))
      else
        (let (old, container') = unset_raw self container
         in (intptr_of old, container')))"

text \<open>
  \<^verbatim>\<open>void unset(Extensible* container) { set(container, 0); }\<close>, from the header: the
  result of \<open>set\<close> is dropped.
\<close>

definition LocalIntExt_unset ::
  "ExtensionItem \<Rightarrow> (int, 'm) Extensible_scheme \<Rightarrow> (int, 'm) Extensible_scheme"
where
  "LocalIntExt_unset self container = snd (LocalIntExt_set self container 0)"

section \<open>The join timer\<close>

text \<open>
  Modelled from the spec: the class \<^verbatim>\<open>User\<close> and the macro \<^verbatim>\<open>IS_LOCAL\<close> are used
  by the module and declared outside the sources. The spec speaks of a holder flagged as
  remote and of a value that is only meaningful for a locally-connected holder: a user
  is a holder with such a flag, and \<^verbatim>\<open>IS_LOCAL\<close> gives the user when it is local and
  the null pointer otherwise. \<^verbatim>\<open>JoinTimer::FromString\<close> casts its holder to a user
  without a check (the item is declared for users), so the holder it is given is a user
  in the model.
\<close>

datatype UserType = USERTYPE_LOCAL | USERTYPE_REMOTE | USERTYPE_SERVER

record 'v User = "'v Extensible" +
  usertype :: UserType

definition IS_LOCAL :: "('v, 'm) User_scheme \<Rightarrow> ('v, 'm) User_scheme option" where
  "IS_LOCAL u = (if usertype u = USERTYPE_LOCAL then Some u else None)"

text \<open>
  \<^verbatim>\<open>struct TimerSettings\<close>: an \<^verbatim>\<open>unsigned int\<close>, taken to be of 32 bits, and a
  \<^verbatim>\<open>time_t\<close>, taken to be of 64 bits.
\<close>

record TimerSettings =
  interval :: "32 word"
  trigger :: "64 word"

text \<open>
  The object representation of \<^verbatim>\<open>TimerSettings\<close> where \<^verbatim>\<open>time_t\<close> is aligned to
  eight bytes: the four bytes of the interval, four bytes of padding, the eight bytes of
  the trigger. The value of the padding bytes is indeterminate in C++; the model writes
  zeros, and reading ignores them.
\<close>

definition TimerSettings_layout :: "byte_order \<Rightarrow> TimerSettings layout" where
  "TimerSettings_layout order =
     \<lparr> sizeof = 16,
       object_bytes = (\<lambda>ts.
         object_bytes (int_layout order) (interval ts) @ replicate 4 NUL
         @ object_bytes (int_layout order) (trigger ts)),
       from_object_bytes = (\<lambda>bs.
         (case from_object_bytes (int_layout order) (take 4 bs) of
            None \<Rightarrow> None
          | Some i \<Rightarrow>
             (case from_object_bytes (int_layout order) (drop 8 bs) of
                None \<Rightarrow> None
              | Some t \<Rightarrow> Some \<lparr> interval = i, trigger = t \<rparr>))) \<rparr>"

text \<open>
  \<^verbatim>\<open>class JoinTimer\<close>: its three members, and the interval and trigger that it
  inherits from the class \<^verbatim>\<open>Timer\<close>. The user is kept by address.
\<close>

record JoinTimer =
  user :: nat
  channels :: string
  ext :: ExtensionItem
  Timer_interval :: "32 word"
  Timer_trigger :: "64 word"

text \<open>
  The constructor. The class \<^verbatim>\<open>Timer\<close> is declared outside the sources: the trigger
  that its constructor sets is the parameter \<open>base_trigger\<close>, replaced by \<open>Trigger\<close> when
  that is not zero. The constructor also hands the timer to the timer manager of the
  server, which is left out.
\<close>

definition JoinTimer_new ::
  "64 word \<Rightarrow> ('v, 'm) User_scheme \<Rightarrow> ExtensionItem \<Rightarrow> string \<Rightarrow> 32 word \<Rightarrow> 64 word \<Rightarrow>
   JoinTimer"
where
  "JoinTimer_new base_trigger u ex chans delay Trigger =
     \<lparr> user = this u, channels = chans, ext = ex, Timer_interval = delay,
       Timer_trigger = (if Trigger \<noteq> 0 then Trigger else base_trigger) \<rparr>"

text \<open>
  \<^verbatim>\<open>JoinTimer::dataSer\<close>, of type \<^verbatim>\<open>Ext::Serialize<std::pair<TimerSettings, std::string>>\<close>,
  where \<^verbatim>\<open>Ext::Serialize<TimerSettings>\<close> is \<^verbatim>\<open>SerializePrimitive<TimerSettings>\<close>. The
  object representation of \<^verbatim>\<open>TimerSettings\<close> is the parameter \<open>T\<close>.
\<close>

definition dataSer :: "TimerSettings layout \<Rightarrow> (TimerSettings \<times> string, 'h) SerializeBase" where
  "dataSer T = Serialize_pair (SerializePrimitive T) Serialize_string"

definition JoinTimer_Serialize ::
  "TimerSettings layout \<Rightarrow> SerializeFormat \<Rightarrow> JoinTimer \<Rightarrow> 'h option \<Rightarrow> ExtensionItem option \<Rightarrow>
   string"
where
  "JoinTimer_Serialize T format jt container extItem =
     serialize (dataSer T) format
       (\<lparr> interval = Timer_interval jt, trigger = Timer_trigger jt \<rparr>, channels jt)
       container extItem"

definition JoinTimer_FromString ::
  "TimerSettings layout \<Rightarrow> 64 word \<Rightarrow> SerializeFormat \<Rightarrow> string \<Rightarrow>
   ('v, 'm) User_scheme option \<Rightarrow> ExtensionItem option \<Rightarrow> failure + JoinTimer option"
where
  "JoinTimer_FromString T base_trigger format v container extItem =
     (case container of
        None \<Rightarrow> Inl (ModuleException ''Unable to find user while unserializing JoinTimer object'')
      | Some u \<Rightarrow>
         (case IS_LOCAL u of
            None \<Rightarrow> Inl (ModuleException ''Attempt to unserialize JoinTimer for remote user'')
          | Some lu \<Rightarrow>
             (case extItem of
                None \<Rightarrow>
                  Inl (ModuleException
                    ''Unable to find join_timer ext while unserializing JoinTimer object'')
              | Some jtext \<Rightarrow>
                 (case unserialize (dataSer T) format v container extItem of
                    Inl ex \<Rightarrow> Inl ex
                  | Inr None \<Rightarrow> Inr None
                  | Inr (Some pair) \<Rightarrow>
                      Inr (Some (JoinTimer_new base_trigger lu jtext (snd pair)
                        (interval (fst pair)) (trigger (fst pair))))))))"

text \<open>
  \<^verbatim>\<open>Ext::Serialize<JoinTimer>\<close>, the primary template at the type \<^verbatim>\<open>JoinTimer\<close>, and
  the item \<^verbatim>\<open>JTExt\<close> of the module, a \<^verbatim>\<open>SimpleExtItem<JoinTimer>\<close> with the default
  deleter.
\<close>

definition Serialize_JoinTimer ::
  "TimerSettings layout \<Rightarrow> 64 word \<Rightarrow> (JoinTimer, ('v, 'm) User_scheme) SerializeBase"
where
  "Serialize_JoinTimer T base_trigger =
     Serialize_user_defined (JoinTimer_Serialize T) (JoinTimer_FromString T base_trigger)"

definition JTExt_unserialize ::
  "TimerSettings layout \<Rightarrow> 64 word \<Rightarrow> ExtensionItem \<Rightarrow> SerializeFormat \<Rightarrow>
   (JoinTimer, 'm) User_scheme \<Rightarrow> JoinTimer list \<Rightarrow> string \<Rightarrow>
   failure + (JoinTimer, 'm) User_scheme \<times> JoinTimer list"
where
  "JTExt_unserialize T base_trigger self format container destroyed v =
     SimpleExtItem_unserialize (Serialize_JoinTimer T base_trigger) defaultdeleter
       self format container destroyed v"

section \<open>Round trips\<close>

text \<open>
  The law \<open>unserialize(format, serialize(format, v)) == v\<close> of the spec, for one codec,
  one format and one value: unserializing the text that \<open>serialize\<close> writes returns a new
  object of the same value. \<open>rebuilds\<close> says of a container that inserting its elements,
  in the order of iteration, into a new container gives the container back.
\<close>

definition round_trip ::
  "('a, 'h) SerializeBase \<Rightarrow> SerializeFormat \<Rightarrow> 'h option \<Rightarrow> ExtensionItem option \<Rightarrow> 'a \<Rightarrow> bool"
where
  "round_trip ser format container extItem v \<longleftrightarrow>
     unserialize ser format (serializeStr ser format v container extItem) container extItem
       = Inr (Some v)"

definition rebuilds :: "('c, 'a) Inserter \<Rightarrow> 'c \<Rightarrow> bool" where
  "rebuilds inserter v \<longleftrightarrow>
     foldl (insert_value inserter) (new_container inserter) (elements inserter v) = v"

section \<open>Laws of the escaping codec\<close>

lemma ESC_neq_NUL: "ESC \<noteq> NUL"
  by (simp add: ESC_def NUL_def)

lemma zero_digit_neq_NUL: "CHR ''0'' \<noteq> NUL"
  by (simp add: NUL_def)

lemma zero_digit_neq_ESC: "CHR ''0'' \<noteq> ESC"
  by (simp add: ESC_def)

lemma EscapeNulls_Nil: "EscapeNulls [] = []"
  by (simp add: EscapeNulls_def)

lemma EscapeNulls_Cons: "EscapeNulls (c # s) = escape_byte c @ EscapeNulls s"
  by (simp add: EscapeNulls_def)

lemma UnescapeNulls_plain: "c \<noteq> ESC \<Longrightarrow> UnescapeNulls (c # r) = c # UnescapeNulls r"
  by (cases r) simp_all

lemma UnescapeNulls_EscapeNulls: "UnescapeNulls (EscapeNulls s) = s"
proof (induction s)
  case Nil
  show ?case by (simp add: EscapeNulls_Nil)
next
  case (Cons c s)
  show ?case
  proof (cases "c = NUL \<or> c = ESC")
    case True
    then show ?thesis
      using Cons.IH ESC_neq_NUL zero_digit_neq_ESC by (auto simp: EscapeNulls_Cons)
  next
    case False
    then show ?thesis
      using Cons.IH by (simp add: EscapeNulls_Cons UnescapeNulls_plain)
  qed
qed

lemma split_pieces_plain:
  "c \<noteq> NUL \<Longrightarrow> c \<noteq> ESC \<Longrightarrow> r \<noteq> [] \<Longrightarrow> split_pieces piece (c # r) = split_pieces (piece @ [c]) r"
  by (cases r) simp_all

lemma split_pieces_separator: "split_pieces piece (NUL # r) = piece # split_pieces [] r"
  by (cases r) simp_all

lemma split_pieces_field:
  "split_pieces piece (EscapeNulls s @ NUL # r) = (piece @ EscapeNulls s) # split_pieces [] r"
proof (induction s arbitrary: piece)
  case Nil
  show ?case by (simp add: EscapeNulls_Nil split_pieces_separator)
next
  case (Cons c s)
  show ?case
  proof (cases "c = NUL \<or> c = ESC")
    case True
    then show ?thesis
      using Cons.IH [of "piece @ escape_byte c"] ESC_neq_NUL
      by (auto simp: EscapeNulls_Cons)
  next
    case False
    then have "split_pieces piece (c # (EscapeNulls s @ NUL # r)) =
        split_pieces (piece @ [c]) (EscapeNulls s @ NUL # r)"
      by (intro split_pieces_plain) simp_all
    with False show ?thesis
      using Cons.IH [of "piece @ [c]"] by (simp add: EscapeNulls_Cons)
  qed
qed

lemma encode_fields_Nil: "encode_fields [] = []"
  by (simp add: encode_fields_def)

lemma encode_fields_Cons: "encode_fields (s # xs) = EscapeNulls s @ NUL # encode_fields xs"
  by (simp add: encode_fields_def)

lemma SplitUnescapeNulls_Nil: "SplitUnescapeNulls [] = []"
  by (simp add: SplitUnescapeNulls_def)

lemma SplitUnescapeNulls_field:
  "SplitUnescapeNulls (EscapeNulls s @ NUL # r) = s # SplitUnescapeNulls r"
  using split_pieces_field [of "[]" s r]
  by (simp add: SplitUnescapeNulls_def UnescapeNulls_EscapeNulls)

lemma SplitUnescapeNulls_encode_fields: "SplitUnescapeNulls (encode_fields xs) = xs"
  by (induction xs)
    (simp_all add: encode_fields_Nil encode_fields_Cons SplitUnescapeNulls_Nil
      SplitUnescapeNulls_field)

text \<open>
  Claim C1. For every sequence of byte strings, whatever bytes they hold (NUL and the
  escape marker included), decoding the encoding of the sequence gives the sequence back;
  the encoding of the empty sequence is the empty string, and the empty string decodes to
  the empty sequence.
\<close>

theorem escape_codec_roundtrip:
  "SplitUnescapeNulls (encode_fields xs) = xs
   \<and> encode_fields [] = []
   \<and> SplitUnescapeNulls [] = []"
  by (simp add: SplitUnescapeNulls_encode_fields encode_fields_Nil SplitUnescapeNulls_Nil)

section \<open>Laws of the value codecs\<close>

subsection \<open>The bytes of an integer\<close>

lemma of_nat_take_bit_unat: "(of_nat (take_bit 8 (unat w)) :: 'a::len word) = take_bit 8 w"
  by (rule bit_word_eqI) (auto simp add: bit_simps)

lemma of_char_char_of_unat: "(of_char (char_of (unat w)) :: 'a::len word) = take_bit 8 w"
proof -
  have "(of_char (char_of (unat w)) :: 'a word) = of_nat (of_char (char_of (unat w)))"
    by (simp only: of_nat_of_char)
  also have "\<dots> = of_nat (take_bit 8 (unat w))"
    by (simp add: take_bit_eq_mod)
  also have "\<dots> = take_bit 8 w"
    by (rule of_nat_take_bit_unat)
  finally show ?thesis .
qed

lemma take_bit_low_byte:
  "take_bit 8 (w :: 'a::len word) OR push_bit 8 (take_bit n (drop_bit 8 w)) = take_bit (8 + n) w"
  by (rule bit_word_eqI) (auto simp add: bit_simps)

lemma bytes_word_word_bytes: "bytes_word (word_bytes n w) = take_bit (8 * n) (w :: 'a::len word)"
proof (induction n arbitrary: w)
  case 0
  show ?case by simp
next
  case (Suc n)
  show ?case
    using Suc.IH [of "drop_bit 8 w"] take_bit_low_byte [of w "8 * n"]
    by (simp add: of_char_char_of_unat)
qed

lemma length_word_bytes: "length (word_bytes n w) = n"
  by (induction n arbitrary: w) simp_all

lemma bytes_word_full:
  "LENGTH('a) \<le> 8 * n \<Longrightarrow> bytes_word (word_bytes n w) = (w :: 'a::len word)"
  by (simp add: bytes_word_word_bytes take_bit_word_eq_self)

lemma int_layout_ok: "layout_ok (int_layout order :: 'a::len word layout)"
proof -
  have "LENGTH('a) \<le> 8 * ((LENGTH('a) + 7) div 8)" by simp
  then show ?thesis
    by (cases order) (simp_all add: layout_ok_def int_layout_def length_word_bytes bytes_word_full)
qed

lemma bool_layout_ok: "layout_ok bool_layout"
  by (simp add: layout_ok_def bool_layout_def NUL_def)

subsection \<open>Decimal text\<close>

lemma digit_char:
  "d < 10 \<Longrightarrow>
   is_digit (char_of (48 + d :: nat)) \<and> (of_char (char_of (48 + d :: nat)) :: nat) - 48 = d"
  by (simp add: is_digit_def)

lemma digit_not_minus: "d < 10 \<Longrightarrow> char_of (48 + d :: nat) \<noteq> CHR ''-''"
proof
  assume "d < 10" and "char_of (48 + d) = CHR ''-''"
  then have "(of_char (char_of (48 + d)) :: nat) = of_char CHR ''-''" by simp
  with \<open>d < 10\<close> show False by simp
qed

lemma parse_digits_digit:
  "d < 10 \<Longrightarrow>
   parse_digits acc (char_of (48 + d :: nat) # rest) = parse_digits (acc * 10 + d) rest"
  using digit_char [of d] by simp

lemma parse_digits_decimal_digits:
  "parse_digits acc (decimal_digits n @ rest) =
     parse_digits (acc * 10 ^ length (decimal_digits n) + n) rest"
proof (induction n arbitrary: acc rest rule: decimal_digits.induct)
  case (1 n)
  show ?case
  proof (cases "n < 10")
    case True
    then show ?thesis
      using parse_digits_digit [of n acc rest]
      by (simp add: decimal_digits.simps [of n])
  next
    case False
    have "n mod 10 < 10" by simp
    then have step:
      "parse_digits a (char_of (48 + n mod 10) # rest) = parse_digits (a * 10 + n mod 10) rest"
      for a
      by (rule parse_digits_digit)
    have "parse_digits acc (decimal_digits n @ rest) =
        parse_digits acc (decimal_digits (n div 10) @ char_of (48 + n mod 10) # rest)"
      using False by (simp add: decimal_digits.simps [of n])
    also have "\<dots> = parse_digits (acc * 10 ^ length (decimal_digits (n div 10)) + n div 10)
        (char_of (48 + n mod 10) # rest)"
      using False "1.IH" by simp
    also have "\<dots> =
        parse_digits
          ((acc * 10 ^ length (decimal_digits (n div 10)) + n div 10) * 10 + n mod 10) rest"
      by (rule step)
    also have "(acc * 10 ^ length (decimal_digits (n div 10)) + n div 10) * 10 + n mod 10
        = acc * 10 ^ length (decimal_digits n) + n"
      using False by (simp add: decimal_digits.simps [of n] algebra_simps)
    finally show ?thesis .
  qed
qed

lemma parse_digits_decimal: "parse_digits 0 (decimal_digits n) = n"
  using parse_digits_decimal_digits [of 0 n "[]"] by simp

lemma decimal_digits_head: "\<exists>c cs. decimal_digits n = c # cs \<and> c \<noteq> CHR ''-''"
proof (induction n rule: decimal_digits.induct)
  case (1 n)
  show ?case
  proof (cases "n < 10")
    case True
    then show ?thesis
      using digit_not_minus [of n] by (simp add: decimal_digits.simps [of n])
  next
    case False
    with "1.IH" obtain c cs where "decimal_digits (n div 10) = c # cs" and "c \<noteq> CHR ''-''"
      by auto
    with False show ?thesis
      by (simp add: decimal_digits.simps [of n])
  qed
qed

lemma parse_decimal_nonneg: "parse_decimal (decimal_digits n) = int n"
proof -
  obtain c cs where "decimal_digits n = c # cs" and "c \<noteq> CHR ''-''"
    using decimal_digits_head by blast
  then have "parse_decimal (decimal_digits n) = int (parse_digits 0 (decimal_digits n))"
    by simp
  then show ?thesis by (simp add: parse_digits_decimal)
qed

lemma parse_decimal_decimal_text: "parse_decimal (decimal_text i) = i"
proof (cases "i < 0")
  case True
  then show ?thesis by (simp add: decimal_text_def parse_digits_decimal)
next
  case False
  then show ?thesis by (simp add: decimal_text_def parse_decimal_nonneg)
qed

lemma ConvToNum_ConvNumeric: "ConvToNum (ConvNumeric is_signed w) = w"
  by (simp add: ConvToNum_def ConvNumeric_def parse_decimal_decimal_text)

subsection \<open>Round trips, codec by codec\<close>

lemma round_trip_string: "round_trip Serialize_string format container extItem s"
  by (simp add: round_trip_def serializeStr_def Serialize_string_def)

lemma round_trip_primitive:
  assumes "layout_ok T"
  shows "round_trip (SerializePrimitive T) format container extItem v"
proof -
  from assms have len: "length (object_bytes T v) = sizeof T"
    and readback: "from_object_bytes T (object_bytes T v) = Some v"
    by (simp_all add: layout_ok_def)
  from len have "take (sizeof T) (object_bytes T v @ [NUL]) = object_bytes T v"
    by simp
  with len readback show ?thesis
    by (simp add: round_trip_def serializeStr_def SerializePrimitive_def Let_def)
qed

lemma round_trip_numeric:
  assumes "format \<noteq> FORMAT_USER" and "layout_ok T"
  shows "round_trip (SerializeNumeric T cn ctn) format container extItem v"
  using assms(1) round_trip_primitive [OF assms(2), of format container extItem v]
  by (simp add: round_trip_def serializeStr_def SerializeNumeric_def)

lemma round_trip_int:
  "format \<noteq> FORMAT_USER \<Longrightarrow>
   round_trip (Serialize_int order is_signed) format container extItem w"
  unfolding Serialize_int_def by (rule round_trip_numeric) (simp_all add: int_layout_ok)

lemma round_trip_bool:
  "format \<noteq> FORMAT_USER \<Longrightarrow> round_trip Serialize_bool format container extItem b"
  using round_trip_numeric [of format bool_layout ConvNumeric_bool ConvToNum_bool container extItem b]
  by (simp add: round_trip_def serializeStr_def Serialize_bool_def bool_layout_ok)

lemma round_trip_pair:
  assumes "round_trip ser1 format container extItem a"
    and "round_trip ser2 format container extItem b"
  shows "round_trip (Serialize_pair ser1 ser2) format container extItem (a, b)"
proof -
  let ?s1 = "serializeStr ser1 format a container extItem"
  let ?s2 = "serializeStr ser2 format b container extItem"
  let ?text = "EscapeNulls ?s1 @ [NUL] @ EscapeNulls ?s2 @ [NUL]"
  have split: "SplitUnescapeNulls ?text = [?s1, ?s2]"
    using SplitUnescapeNulls_field [of ?s1 "EscapeNulls ?s2 @ [NUL]"]
      SplitUnescapeNulls_field [of ?s2 "[]"]
    by (simp add: SplitUnescapeNulls_Nil)
  have written:
    "serializeStr (Serialize_pair ser1 ser2) format (a, b) container extItem = ?text"
    by (simp add: serializeStr_def Serialize_pair_def)
  have nonempty: "?text \<noteq> []" by simp
  from assms have "unserialize ser1 format ?s1 container extItem = Inr (Some a)"
    and "unserialize ser2 format ?s2 container extItem = Inr (Some b)"
    by (simp_all add: round_trip_def)
  then have
    "unserialize (Serialize_pair ser1 ser2) format ?text container extItem = Inr (Some (a, b))"
    using split nonempty by (simp add: Serialize_pair_def at_def del: append.simps)
  with written show ?thesis by (simp only: round_trip_def)
qed

lemma unserialize_values_round_trip:
  assumes "\<forall>x\<in>set xs. round_trip ser format container extItem x"
  shows "unserialize_values inserter ser format container extItem cont
           (map (\<lambda>it. serializeStr ser format it container extItem) xs)
         = Inr (foldl (insert_value inserter) cont xs)"
  using assms by (induction xs arbitrary: cont) (simp_all add: round_trip_def)

lemma serialize_container_encode_fields:
  "serializeStr (SerializeContainer inserter ser) format v container extItem =
     encode_fields
       (map (\<lambda>it. serializeStr ser format it container extItem) (elements inserter v))"
  by (simp add: serializeStr_def SerializeContainer_def encode_fields_def comp_def)

lemma round_trip_container:
  assumes "\<forall>x\<in>set (elements inserter v). round_trip ser format container extItem x"
    and "rebuilds inserter v"
  shows "round_trip (SerializeContainer inserter ser) format container extItem v"
proof -
  let ?fields =
    "map (\<lambda>it. serializeStr ser format it container extItem) (elements inserter v)"
  have "unserialize (SerializeContainer inserter ser) format (encode_fields ?fields)
          container extItem
      = Inr (Some (foldl (insert_value inserter) (new_container inserter)
          (elements inserter v)))"
    using unserialize_values_round_trip [OF assms(1), of inserter "new_container inserter"]
    by (simp add: SerializeContainer_def SplitUnescapeNulls_encode_fields)
  with assms(2) show ?thesis
    by (simp add: round_trip_def serialize_container_encode_fields rebuilds_def)
qed

lemma foldl_push_back: "foldl (\<lambda>cont v. cont @ [v]) acc xs = acc @ xs"
  by (induction xs arbitrary: acc) simp_all

lemma rebuilds_push_back: "rebuilds Inserter_push_back v"
  by (simp add: rebuilds_def Inserter_push_back_def foldl_push_back)

lemma elements_push_back: "elements Inserter_push_back v = v"
  by (simp add: Inserter_push_back_def)

lemma round_trip_vector:
  "\<forall>x\<in>set xs. round_trip ser format container extItem x \<Longrightarrow>
   round_trip (Serialize_vector ser) format container extItem xs"
  unfolding Serialize_vector_def
  by (rule round_trip_container) (simp_all add: elements_push_back rebuilds_push_back)

lemma upper_insert_last: "\<forall>x\<in>set acc. \<not> lt v x \<Longrightarrow> upper_insert lt v acc = acc @ [v]"
  by (induction acc) simp_all

lemma foldl_unique_insert:
  "sorted_wrt (\<lambda>x y. lt x y \<and> \<not> lt y x) (acc @ xs) \<Longrightarrow>
   foldl (\<lambda>cont v. if list_ex (\<lambda>x. \<not> lt x v \<and> \<not> lt v x) cont then cont
                    else upper_insert lt v cont) acc xs = acc @ xs"
proof (induction xs arbitrary: acc)
  case Nil
  show ?case by simp
next
  case (Cons v xs)
  from Cons.prems have before: "\<forall>x\<in>set acc. lt x v \<and> \<not> lt v x"
    by (simp add: sorted_wrt_append)
  then have "upper_insert lt v acc = acc @ [v]" by (simp add: upper_insert_last)
  moreover from before have "\<not> list_ex (\<lambda>x. \<not> lt x v \<and> \<not> lt v x) acc"
    by (simp add: list_ex_iff)
  moreover from Cons.prems
  have "sorted_wrt (\<lambda>x y. lt x y \<and> \<not> lt y x) ((acc @ [v]) @ xs)" by simp
  ultimately show ?case using Cons.IH [of "acc @ [v]"] by simp
qed

lemma rebuilds_flat_set: "unique_sorted lt v \<Longrightarrow> rebuilds (Inserter_flat_set lt) v"
  using foldl_unique_insert [of lt "[]" v]
  by (simp add: rebuilds_def Inserter_flat_set_def unique_sorted_def)

lemma elements_flat_set: "elements (Inserter_flat_set lt) v = v"
  by (simp add: Inserter_flat_set_def)

lemma round_trip_flat_set:
  "\<forall>x\<in>set xs. round_trip ser format container extItem x \<Longrightarrow> unique_sorted lt xs \<Longrightarrow>
   round_trip (SerializeContainer (Inserter_flat_set lt) ser) format container extItem xs"
  by (rule round_trip_container) (simp_all add: elements_flat_set rebuilds_flat_set)

lemma elements_primary: "elements (Inserter_primary begin_end new_T push_back) c = begin_end c"
  by (simp add: Inserter_primary_def)

lemma round_trip_primary:
  "\<forall>x\<in>set (begin_end c). round_trip ser format container extItem x \<Longrightarrow>
   rebuilds (Inserter_primary begin_end new_T push_back) c \<Longrightarrow>
   round_trip (SerializeContainer (Inserter_primary begin_end new_T push_back) ser)
     format container extItem c"
  by (rule round_trip_container) (simp_all add: elements_primary)

lemma round_trip_user_defined:
  "T_FromString format (T_Serialize format y container extItem) container extItem = Inr (Some y)
   \<Longrightarrow> round_trip (Serialize_user_defined T_Serialize T_FromString) format container extItem y"
  by (simp add: round_trip_def serializeStr_def Serialize_user_defined_def)

text \<open>
  The two stubs for \<^verbatim>\<open>User*\<close> and \<^verbatim>\<open>LocalUser*\<close> are no supported shape: nothing
  comes back. In the \<^verbatim>\<open>UserDisplay\<close> format the boolean true does not come back either.
\<close>

lemma no_round_trip_User_ptr: "\<not> round_trip Serialize_User_ptr format container extItem v"
  by (simp add: round_trip_def Serialize_User_ptr_def)

lemma no_round_trip_bool_user_display:
  "\<not> round_trip Serialize_bool FORMAT_USER container extItem True"
  by (simp add: round_trip_def serializeStr_def Serialize_bool_def SerializeNumeric_def
      ConvToNum_bool_def is_digit_def)

subsection \<open>The example of the spec, computed\<close>

text \<open>
  On a little-endian platform the list \<open>[1, 2, 300]\<close> of 32-bit integers is written as
  three fields of four bytes each, 300 being the bytes \<open>2C 01 00 00\<close>; every zero byte is
  escaped, and every field is closed by the separator. Reading that text gives the list.
\<close>

lemma vector_int32_written:
  "serialize (Serialize_vector (Serialize_int LittleEndian True :: (int32_t, unit) SerializeBase))
     FORMAT_INTERNAL [1, 2, 300] None None
   = [CHR 0x01, ESC, CHR ''0'', ESC, CHR ''0'', ESC, CHR ''0'', NUL,
      CHR 0x02, ESC, CHR ''0'', ESC, CHR ''0'', ESC, CHR ''0'', NUL,
      CHR 0x2C, CHR 0x01, ESC, CHR ''0'', ESC, CHR ''0'', NUL]"
  by code_simp

lemma vector_int32_read:
  "unserialize (Serialize_vector (Serialize_int LittleEndian True :: (int32_t, unit) SerializeBase))
     FORMAT_INTERNAL
     [CHR 0x01, ESC, CHR ''0'', ESC, CHR ''0'', ESC, CHR ''0'', NUL,
      CHR 0x02, ESC, CHR ''0'', ESC, CHR ''0'', ESC, CHR ''0'', NUL,
      CHR 0x2C, CHR 0x01, ESC, CHR ''0'', ESC, CHR ''0'', NUL] None None
   = Inr (Some [1, 2, 300])"
  by code_simp

section \<open>Unserializing a pair\<close>

lemma pair_unserialize_empty:
  "unserialize (Serialize_pair ser1 ser2) format [] container extItem = Inr None"
  by (simp add: Serialize_pair_def)

lemma pair_unserialize_two_fields:
  assumes "v \<noteq> []" and "SplitUnescapeNulls v = s1 # s2 # rest"
    and "unserialize ser1 format s1 container extItem = Inr r1"
    and "unserialize ser2 format s2 container extItem = Inr r2"
  shows "unserialize (Serialize_pair ser1 ser2) format v container extItem =
    Inr (case r1 of None \<Rightarrow> None
         | Some a \<Rightarrow> (case r2 of None \<Rightarrow> None | Some b \<Rightarrow> Some (a, b)))"
  using assms by (simp add: Serialize_pair_def at_def split: option.splits)

lemma pair_unserialize_Some:
  assumes "unserialize (Serialize_pair ser1 ser2) format v container extItem = Inr (Some (a, b))"
  shows "v \<noteq> [] \<and> (\<exists>s1 s2 rest. SplitUnescapeNulls v = s1 # s2 # rest
          \<and> unserialize ser1 format s1 container extItem = Inr (Some a)
          \<and> unserialize ser2 format s2 container extItem = Inr (Some b))"
proof (cases "SplitUnescapeNulls v")
  case Nil
  with assms show ?thesis
    by (simp add: Serialize_pair_def at_def split: if_splits)
next
  case (Cons s1 fields)
  show ?thesis
  proof (cases fields)
    case Nil
    with Cons assms show ?thesis
      by (simp add: Serialize_pair_def at_def split: if_splits sum.splits)
  next
    case (Cons s2 rest)
    with \<open>SplitUnescapeNulls v = s1 # fields\<close> assms show ?thesis
      by (simp add: Serialize_pair_def at_def split: if_splits sum.splits option.splits)
  qed
qed

text \<open>
  Claim C2, as the code has it. For every format and every text, \<open>unserialize\<close> of the
  pair codec returns the null pointer when the text is empty. When the text is not empty
  and splits into at least two fields on which the element codecs return, it returns the
  null pointer if either of the first two fields fails to parse, and the pair of the two
  values otherwise; fields after the second are ignored. It returns a pair only when the
  text is not empty, splits into at least two fields, and the first two parse.
\<close>

theorem pair_unserialize_first_two_fields:
  "unserialize (Serialize_pair ser1 ser2) format [] container extItem = Inr None
   \<and> (v \<noteq> [] \<longrightarrow> SplitUnescapeNulls v = s1 # s2 # rest \<longrightarrow>
        unserialize ser1 format s1 container extItem = Inr r1 \<longrightarrow>
        unserialize ser2 format s2 container extItem = Inr r2 \<longrightarrow>
        unserialize (Serialize_pair ser1 ser2) format v container extItem =
          Inr (case r1 of None \<Rightarrow> None
               | Some a \<Rightarrow> (case r2 of None \<Rightarrow> None | Some b \<Rightarrow> Some (a, b))))
   \<and> (unserialize (Serialize_pair ser1 ser2) format v' container extItem = Inr (Some (a', b')) \<longrightarrow>
        v' \<noteq> [] \<and> (\<exists>f1 f2 more. SplitUnescapeNulls v' = f1 # f2 # more
          \<and> unserialize ser1 format f1 container extItem = Inr (Some a')
          \<and> unserialize ser2 format f2 container extItem = Inr (Some b')))"
  using pair_unserialize_empty [of ser1 ser2 format container extItem]
    pair_unserialize_two_fields [of v s1 s2 rest ser1 format container extItem r1 ser2 r2]
    pair_unserialize_Some [of ser1 ser2 format v' container extItem a' b']
  by blast

lemma two_fields_text:
  "SplitUnescapeNulls (''30'' @ [NUL] @ ''general,ops'' @ [NUL]) = [''30'', ''general,ops'']"
  by code_simp

theorem pair_unserialize_first_two_fields_witness:
  "unserialize (Serialize_pair Serialize_string Serialize_string) FORMAT_PERSIST
      (''30'' @ [NUL] @ ''general,ops'' @ [NUL]) (None :: unit option) None
     = Inr (Some (''30'', ''general,ops''))
   \<and> unserialize (Serialize_pair Serialize_string (Serialize_User_ptr :: (unit, unit) SerializeBase))
      FORMAT_PERSIST (''30'' @ [NUL] @ ''general,ops'' @ [NUL]) None None
     = Inr None
   \<and> (\<exists>f1 f2 more. SplitUnescapeNulls (''30'' @ [NUL] @ ''general,ops'' @ [NUL]) = f1 # f2 # more
        \<and> unserialize Serialize_string FORMAT_PERSIST f1 (None :: unit option) None = Inr (Some ''30'')
        \<and> unserialize Serialize_string FORMAT_PERSIST f2 (None :: unit option) None
            = Inr (Some ''general,ops''))"
proof -
  let ?v = "''30'' @ [NUL] @ ''general,ops'' @ [NUL]"
  have nonempty: "?v \<noteq> []" by simp
  have fields: "SplitUnescapeNulls ?v = ''30'' # ''general,ops'' # []"
    by (rule two_fields_text)
  have str: "unserialize Serialize_string FORMAT_PERSIST s (None :: unit option) None = Inr (Some s)"
    for s by (simp add: Serialize_string_def)
  have stub: "unserialize (Serialize_User_ptr :: (unit, unit) SerializeBase) FORMAT_PERSIST s None None
      = Inr None" for s by (simp add: Serialize_User_ptr_def)
  note both = pair_unserialize_first_two_fields [THEN conjunct2, THEN conjunct1, THEN mp, THEN mp,
      THEN mp, THEN mp, OF nonempty fields]
  have first: "unserialize (Serialize_pair Serialize_string Serialize_string) FORMAT_PERSIST
      ?v (None :: unit option) None = Inr (Some (''30'', ''general,ops''))"
    using both [OF str str] by simp
  have second: "unserialize (Serialize_pair Serialize_string (Serialize_User_ptr :: (unit, unit) SerializeBase))
      FORMAT_PERSIST ?v None None = Inr None"
    using both [OF str stub] by simp
  note only = pair_unserialize_first_two_fields [THEN conjunct2, THEN conjunct2, THEN mp, OF first]
  from first second only show ?thesis by blast
qed

text \<open>
  The claim as the spec words it asks for exactly two fields. The encoding of three fields
  is read as the pair of the first two.
\<close>

theorem pair_unserialize_three_fields_counterexample:
  "encode_fields [''a'', ''b'', ''c''] = ''a'' @ [NUL] @ ''b'' @ [NUL] @ ''c'' @ [NUL]
   \<and> SplitUnescapeNulls (''a'' @ [NUL] @ ''b'' @ [NUL] @ ''c'' @ [NUL]) = [''a'', ''b'', ''c'']
   \<and> unserialize (Serialize_pair Serialize_string Serialize_string) FORMAT_INTERNAL
        (''a'' @ [NUL] @ ''b'' @ [NUL] @ ''c'' @ [NUL]) (None :: unit option) None
      = Inr (Some (''a'', ''b''))"
  by code_simp

text \<open>
  A text that is not empty and holds fewer than two fields leaves \<open>unserialize\<close> through
  the exception of \<^verbatim>\<open>values.at(1)\<close>.
\<close>

lemma pair_unserialize_one_field_raises:
  "encode_fields [''a''] = ''a'' @ [NUL]
   \<and> unserialize (Serialize_pair Serialize_string Serialize_string) FORMAT_INTERNAL
        (''a'' @ [NUL]) (None :: unit option) None
      = Inl out_of_range"
  by code_simp

section \<open>Numbers and booleans, format by format\<close>

lemma primitive_unserialize_exact:
  assumes "length s = sizeof T"
  shows "unserialize (SerializePrimitive T) format s container extItem =
    (case from_object_bytes T s of None \<Rightarrow> Inl undefined_behaviour | Some x \<Rightarrow> Inr (Some x))"
  using assms by (simp add: SerializePrimitive_def Let_def)

lemma int_from_object_bytes:
  "from_object_bytes (int_layout order :: 'a::len word layout) s \<noteq> None"
  by (cases order) (simp_all add: int_layout_def)

lemma int_unserialize_exact:
  assumes "format \<noteq> FORMAT_USER" and "length s = sizeof (int_layout order :: 'a::len word layout)"
  shows "unserialize (Serialize_int order is_signed :: ('a word, 'h) SerializeBase) format s
      container extItem = Inr (from_object_bytes (int_layout order) s)"
proof -
  obtain x :: "'a word" where "from_object_bytes (int_layout order) s = Some x"
    using int_from_object_bytes [of order s] by auto
  with assms show ?thesis
    using primitive_unserialize_exact [of s "int_layout order :: 'a word layout" format container extItem]
    by (simp add: Serialize_int_def SerializeNumeric_def)
qed

lemma int_serialize_binary:
  "format \<noteq> FORMAT_USER \<Longrightarrow>
   serialize (Serialize_int order is_signed) format w container extItem
     = object_bytes (int_layout order) w"
  by (simp add: Serialize_int_def SerializeNumeric_def SerializePrimitive_def)

lemma int_object_bytes_length:
  "length (object_bytes (int_layout order) (w :: 'a::len word))
     = sizeof (int_layout order :: 'a word layout)"
  using int_layout_ok [of order, where 'a = 'a] by (simp add: layout_ok_def)

lemma bool_serialize_binary:
  "format \<noteq> FORMAT_USER \<Longrightarrow>
   serialize Serialize_bool format b container extItem = [if b then CHR 0x01 else NUL]"
  by (simp add: Serialize_bool_def SerializeNumeric_def SerializePrimitive_def bool_layout_def)

lemma bool_unserialize_binary:
  "format \<noteq> FORMAT_USER \<Longrightarrow>
   unserialize Serialize_bool format [c] container extItem
     = (if c = CHR 0x01 then Inr (Some True) else if c = NUL then Inr (Some False)
        else Inl undefined_behaviour)"
  by (simp add: Serialize_bool_def SerializeNumeric_def SerializePrimitive_def bool_layout_def
      Let_def)

text \<open>
  Claim C5. In the \<^verbatim>\<open>UserDisplay\<close> format a number is written as its decimal text
  (read as signed or unsigned, as the type is) and a boolean as \<open>true\<close> or \<open>false\<close>; in
  each of the three other formats a number is written as the bytes of its object
  representation, whose count is the size of the type, and a boolean as its one byte.
  \<open>unserialize\<close> is split the same way: in the \<^verbatim>\<open>UserDisplay\<close> format it parses decimal
  text, for a boolean too; in each other format it reads the fixed-width bytes back as a
  value of the type.
\<close>

theorem numeric_codec_format_split:
  "serialize (Serialize_int order is_signed) FORMAT_USER (w :: 'a::len word) container extItem
      = decimal_text (if is_signed then sint w else uint w)
   \<and> serialize Serialize_bool FORMAT_USER b container extItem = (if b then ''true'' else ''false'')
   \<and> unserialize (Serialize_int order is_signed :: ('a::len word, 'h) SerializeBase) FORMAT_USER s
        container extItem = Inr (Some (word_of_int (parse_decimal s)))
   \<and> unserialize Serialize_bool FORMAT_USER s container extItem = Inr (Some (parse_decimal s \<noteq> 0))
   \<and> (format \<noteq> FORMAT_USER \<longrightarrow>
        serialize (Serialize_int order is_signed) format w container extItem
          = object_bytes (int_layout order) w
        \<and> length (object_bytes (int_layout order) w) = sizeof (int_layout order :: 'a word layout)
        \<and> serialize Serialize_bool format b container extItem = [if b then CHR 0x01 else NUL]
        \<and> (length t = sizeof (int_layout order :: 'a word layout) \<longrightarrow>
             unserialize (Serialize_int order is_signed :: ('a word, 'h) SerializeBase) format t
               container extItem = Inr (from_object_bytes (int_layout order) t))
        \<and> unserialize Serialize_bool format [c] container extItem
            = (if c = CHR 0x01 then Inr (Some True) else if c = NUL then Inr (Some False)
               else Inl undefined_behaviour))"
proof -
  have user_int: "serialize (Serialize_int order is_signed) FORMAT_USER w container extItem
      = decimal_text (if is_signed then sint w else uint w)"
    by (simp add: Serialize_int_def SerializeNumeric_def ConvNumeric_def)
  have user_bool: "serialize Serialize_bool FORMAT_USER b container extItem
      = (if b then ''true'' else ''false'')"
    by (simp add: Serialize_bool_def)
  have parse_int: "unserialize (Serialize_int order is_signed :: ('a word, 'h) SerializeBase)
      FORMAT_USER s container extItem = Inr (Some (word_of_int (parse_decimal s)))"
    by (simp add: Serialize_int_def SerializeNumeric_def ConvToNum_def)
  have parse_bool: "unserialize Serialize_bool FORMAT_USER s container extItem
      = Inr (Some (parse_decimal s \<noteq> 0))"
    by (simp add: Serialize_bool_def SerializeNumeric_def ConvToNum_bool_def)
  have binary: "serialize (Serialize_int order is_signed) format w container extItem
          = object_bytes (int_layout order) w
        \<and> length (object_bytes (int_layout order) w) = sizeof (int_layout order :: 'a word layout)
        \<and> serialize Serialize_bool format b container extItem = [if b then CHR 0x01 else NUL]
        \<and> (length t = sizeof (int_layout order :: 'a word layout) \<longrightarrow>
             unserialize (Serialize_int order is_signed :: ('a word, 'h) SerializeBase) format t
               container extItem = Inr (from_object_bytes (int_layout order) t))
        \<and> unserialize Serialize_bool format [c] container extItem
            = (if c = CHR 0x01 then Inr (Some True) else if c = NUL then Inr (Some False)
               else Inl undefined_behaviour)"
    if other: "format \<noteq> FORMAT_USER"
  proof (intro conjI impI)
    show "serialize (Serialize_int order is_signed) format w container extItem
          = object_bytes (int_layout order) w"
      using other by (rule int_serialize_binary)
    show "length (object_bytes (int_layout order) w) = sizeof (int_layout order :: 'a word layout)"
      by (rule int_object_bytes_length)
    show "serialize Serialize_bool format b container extItem = [if b then CHR 0x01 else NUL]"
      using other by (rule bool_serialize_binary)
    show "unserialize (Serialize_int order is_signed :: ('a word, 'h) SerializeBase) format t
               container extItem = Inr (from_object_bytes (int_layout order) t)"
      if "length t = sizeof (int_layout order :: 'a word layout)"
      using other that by (rule int_unserialize_exact)
    show "unserialize Serialize_bool format [c] container extItem
            = (if c = CHR 0x01 then Inr (Some True) else if c = NUL then Inr (Some False)
               else Inl undefined_behaviour)"
      using other by (rule bool_unserialize_binary)
  qed
  show ?thesis
    by (rule conjI [OF user_int conjI [OF user_bool conjI [OF parse_int conjI [OF parse_bool]]]])
      (rule impI, rule binary)
qed

lemma int32_written:
  "object_bytes (int_layout LittleEndian) (300 :: int32_t) = [CHR 0x2C, CHR 0x01, NUL, NUL]
   \<and> sizeof (int_layout LittleEndian :: int32_t layout) = 4
   \<and> from_object_bytes (int_layout LittleEndian) [CHR 0x2C, CHR 0x01, NUL, NUL] = Some (300 :: int32_t)
   \<and> length [CHR 0x2C, CHR 0x01, NUL, NUL] = sizeof (int_layout LittleEndian :: int32_t layout)"
  by code_simp

theorem numeric_codec_format_split_witness:
  "serialize (Serialize_int LittleEndian True :: (int32_t, unit) SerializeBase) FORMAT_NETWORK 300
      None None = [CHR 0x2C, CHR 0x01, NUL, NUL]
   \<and> unserialize (Serialize_int LittleEndian True :: (int32_t, unit) SerializeBase) FORMAT_NETWORK
        [CHR 0x2C, CHR 0x01, NUL, NUL] None None = Inr (Some 300)
   \<and> serialize (Serialize_bool :: (bool, unit) SerializeBase) FORMAT_PERSIST True None None
        = [CHR 0x01]
   \<and> unserialize (Serialize_bool :: (bool, unit) SerializeBase) FORMAT_PERSIST [CHR 0x01] None None
        = Inr (Some True)"
proof -
  have net: "FORMAT_NETWORK \<noteq> FORMAT_USER" and per: "FORMAT_PERSIST \<noteq> FORMAT_USER" by simp_all
  note n = numeric_codec_format_split [where format = FORMAT_NETWORK and order = LittleEndian
      and is_signed = True and container = "None :: unit option" and extItem = None
      and w = "300 :: int32_t" and t = "[CHR 0x2C, CHR 0x01, NUL, NUL]",
      THEN conjunct2, THEN conjunct2, THEN conjunct2, THEN conjunct2, THEN mp, OF net]
  note p = numeric_codec_format_split [where format = FORMAT_PERSIST and b = True
      and c = "CHR 0x01" and container = "None :: unit option" and extItem = None,
      THEN conjunct2, THEN conjunct2, THEN conjunct2, THEN conjunct2, THEN mp, OF per]
  have written: "serialize (Serialize_int LittleEndian True :: (int32_t, unit) SerializeBase)
      FORMAT_NETWORK 300 None None = [CHR 0x2C, CHR 0x01, NUL, NUL]"
    using n [THEN conjunct1] int32_written by simp
  have len: "length [CHR 0x2C, CHR 0x01, NUL, NUL] = sizeof (int_layout LittleEndian :: int32_t layout)"
    using int32_written by blast
  have rd: "unserialize (Serialize_int LittleEndian True :: (int32_t, unit) SerializeBase)
      FORMAT_NETWORK [CHR 0x2C, CHR 0x01, NUL, NUL] None None = Inr (Some 300)"
    using n [THEN conjunct2, THEN conjunct2, THEN conjunct2, THEN conjunct1, THEN mp, OF len]
      int32_written
    by simp
  have wb: "serialize (Serialize_bool :: (bool, unit) SerializeBase) FORMAT_PERSIST True None None
      = [CHR 0x01]"
    using p [THEN conjunct2, THEN conjunct2, THEN conjunct1] by simp
  have rb: "unserialize (Serialize_bool :: (bool, unit) SerializeBase) FORMAT_PERSIST [CHR 0x01]
      None None = Inr (Some True)"
    using p [THEN conjunct2, THEN conjunct2, THEN conjunct2, THEN conjunct2] by simp
  from written rd wb rb show ?thesis by blast
qed

text \<open>The decimal text of some 32-bit values, computed.\<close>

lemma user_display_examples:
  "serialize (Serialize_int LittleEndian True :: (int32_t, unit) SerializeBase) FORMAT_USER (- 300)
      None None = ''-300''
   \<and> serialize (Serialize_int LittleEndian False :: (int32_t, unit) SerializeBase) FORMAT_USER 300
      None None = ''300''
   \<and> unserialize (Serialize_int LittleEndian True :: (int32_t, unit) SerializeBase) FORMAT_USER
      ''-300'' None None = Inr (Some (- 300))"
  by code_simp

section \<open>Displaced values\<close>

lemma get_raw_set_raw: "get_raw self (snd (set_raw self container ptr)) = ptr"
  by (simp add: get_raw_def set_raw_def)

lemma get_raw_unset_raw: "get_raw self (snd (unset_raw self container)) = None"
  by (simp add: get_raw_def unset_raw_def)

text \<open>
  Claim C3, as the code has it. The raw operations \<open>set_raw\<close> and \<open>unset_raw\<close> return the
  displaced pointer to their caller and free nothing. The typed item's \<open>set\<close> and \<open>unset\<close>
  return nothing: they hand the displaced pointer to the deleter \<^verbatim>\<open>Del\<close> of the item,
  so that with the default deleter a displaced value is destroyed by the call itself.
\<close>

theorem displaced_value_raw_and_typed:
  "fst (set_raw self container ptr) = get_raw self container
   \<and> get_raw self (snd (set_raw self container ptr)) = ptr
   \<and> fst (unset_raw self container) = get_raw self container
   \<and> get_raw self (snd (unset_raw self container)) = None
   \<and> UnserializableSimpleExtItem_set Del self container destroyed v =
      (snd (set_raw self container (Some v)), Del (get_raw self container) destroyed)
   \<and> UnserializableSimpleExtItem_set_ptr Del self container destroyed ptr =
      (snd (set_raw self container ptr), Del (get_raw self container) destroyed)
   \<and> UnserializableSimpleExtItem_unset Del self container destroyed =
      (snd (unset_raw self container), Del (get_raw self container) destroyed)
   \<and> (get_raw self container = Some old \<longrightarrow>
        snd (UnserializableSimpleExtItem_set defaultdeleter self container destroyed v)
          = destroyed @ [old]
        \<and> snd (UnserializableSimpleExtItem_set_ptr defaultdeleter self container destroyed ptr)
          = destroyed @ [old]
        \<and> snd (UnserializableSimpleExtItem_unset defaultdeleter self container destroyed)
          = destroyed @ [old])"
  by (simp add: get_raw_def set_raw_def unset_raw_def
      UnserializableSimpleExtItem_set_def UnserializableSimpleExtItem_set_ptr_def
      UnserializableSimpleExtItem_unset_def defaultdeleter_def)

theorem displaced_value_raw_and_typed_witness:
  "get_raw \<lparr>key = ''ssl_cert'', exttype = EXT_USER\<rparr>
      \<lparr>this = 1, extensions = [\<lparr>key = ''ssl_cert'', exttype = EXT_USER\<rparr> \<mapsto> Some ''old''],
       culled = False\<rparr> = Some ''old''
   \<and> fst (set_raw \<lparr>key = ''ssl_cert'', exttype = EXT_USER\<rparr>
      \<lparr>this = 1, extensions = [\<lparr>key = ''ssl_cert'', exttype = EXT_USER\<rparr> \<mapsto> Some ''old''],
       culled = False\<rparr> (Some ''new'')) = Some ''old''
   \<and> snd (UnserializableSimpleExtItem_set_ptr defaultdeleter
      \<lparr>key = ''ssl_cert'', exttype = EXT_USER\<rparr>
      \<lparr>this = 1, extensions = [\<lparr>key = ''ssl_cert'', exttype = EXT_USER\<rparr> \<mapsto> Some ''old''],
       culled = False\<rparr> [''gone''] (Some ''new'')) = [''gone'', ''old'']"
proof -
  let ?self = "\<lparr>key = ''ssl_cert'', exttype = EXT_USER\<rparr>"
  let ?c = "\<lparr>this = 1, extensions = [?self \<mapsto> Some ''old''], culled = False\<rparr>"
  have stored: "get_raw ?self ?c = Some ''old''"
    by (simp add: get_raw_def)
  note law = displaced_value_raw_and_typed [where self = ?self and container = ?c
      and ptr = "Some ''new''" and old = "''old''" and destroyed = "[''gone'']"]
  from law stored have "fst (set_raw ?self ?c (Some ''new'')) = Some ''old''"
    by simp
  moreover from law stored
  have "snd (UnserializableSimpleExtItem_set_ptr defaultdeleter ?self ?c [''gone''] (Some ''new''))
      = [''gone''] @ [''old'']"
    by blast
  ultimately show ?thesis using stored by simp
qed

text \<open>
  The claim as the spec words it has the typed \<open>set\<close> and \<open>unset\<close> leave the displaced
  value to the caller. On a holder that stores the value \<open>old\<close>, each of them destroys it.
\<close>

theorem typed_set_destroys_displaced_counterexample:
  "UnserializableSimpleExtItem_get \<lparr>key = ''ssl_cert'', exttype = EXT_USER\<rparr>
      \<lparr>this = 1,
       extensions = [\<lparr>key = ''ssl_cert'', exttype = EXT_USER\<rparr> \<mapsto> Some ''old''],
       culled = False\<rparr>
     = Some ''old''
   \<and> snd (UnserializableSimpleExtItem_set defaultdeleter \<lparr>key = ''ssl_cert'', exttype = EXT_USER\<rparr>
      \<lparr>this = 1,
       extensions = [\<lparr>key = ''ssl_cert'', exttype = EXT_USER\<rparr> \<mapsto> Some ''old''],
       culled = False\<rparr> [] ''new'')
     = [''old'']
   \<and> snd (UnserializableSimpleExtItem_unset defaultdeleter \<lparr>key = ''ssl_cert'', exttype = EXT_USER\<rparr>
      \<lparr>this = 1,
       extensions = [\<lparr>key = ''ssl_cert'', exttype = EXT_USER\<rparr> \<mapsto> Some ''old''],
       culled = False\<rparr> [])
     = [''old'']"
  by (simp add: UnserializableSimpleExtItem_get_def UnserializableSimpleExtItem_set_def
      UnserializableSimpleExtItem_unset_def set_raw_def unset_raw_def get_raw_def
      defaultdeleter_def)

section \<open>The simple item and the network format\<close>

text \<open>
  Claim C6. For every simple typed item, whatever its codec, every holder and every stored
  value, \<open>serialize\<close> in the \<^verbatim>\<open>Network\<close> format returns the empty string.
\<close>

theorem network_serialize_empty:
  "SimpleExtItem_serialize serializer self FORMAT_NETWORK container item = []"
  by (simp add: SimpleExtItem_serialize_def)

theorem network_serialize_empty_witness:
  "SimpleExtItem_serialize Serialize_string \<lparr>key = ''ssl_cert'', exttype = EXT_USER\<rparr> FORMAT_NETWORK
      \<lparr>this = 1, extensions = Map.empty, culled = False\<rparr> (Some ''abc'') = []
   \<and> SimpleExtItem_serialize Serialize_string \<lparr>key = ''ssl_cert'', exttype = EXT_USER\<rparr> FORMAT_PERSIST
      \<lparr>this = 1, extensions = Map.empty, culled = False\<rparr> (Some ''abc'') = ''abc''"
  using network_serialize_empty [of Serialize_string "\<lparr>key = ''ssl_cert'', exttype = EXT_USER\<rparr>"
      "\<lparr>this = 1, extensions = Map.empty, culled = False\<rparr>" "Some ''abc''"]
  by (simp add: SimpleExtItem_serialize_def serializeStr_def Serialize_string_def)

text \<open>
  Claim C9. For every simple typed item, whatever its codec (one that throws included),
  every holder and every text, \<open>unserialize\<close> in the \<^verbatim>\<open>Network\<close> format returns with the
  holder and the destroyed objects as they were: the result does not depend on the codec.
\<close>

theorem network_unserialize_returns_at_once:
  "SimpleExtItem_unserialize serializer Del self FORMAT_NETWORK container destroyed v
     = Inr (container, destroyed)"
  by (simp add: SimpleExtItem_unserialize_def)

text \<open>
  On a remote user the codec of the join timer would throw, and on any holder the codec
  of a string would return the text; in the \<^verbatim>\<open>Network\<close> format neither is called.
\<close>

theorem network_unserialize_returns_at_once_witness:
  "SimpleExtItem_unserialize (Serialize_JoinTimer (TimerSettings_layout LittleEndian) 0)
      defaultdeleter \<lparr>key = ''join_timer'', exttype = EXT_USER\<rparr> FORMAT_NETWORK
      \<lparr>this = 5, extensions = Map.empty, culled = False, usertype = USERTYPE_REMOTE\<rparr> [] ''x''
     = Inr (\<lparr>this = 5, extensions = Map.empty, culled = False, usertype = USERTYPE_REMOTE\<rparr>, [])
   \<and> SimpleExtItem_unserialize Serialize_string defaultdeleter
      \<lparr>key = ''ssl_cert'', exttype = EXT_USER\<rparr> FORMAT_NETWORK
      \<lparr>this = 1, extensions = [\<lparr>key = ''ssl_cert'', exttype = EXT_USER\<rparr> \<mapsto> Some ''old''],
       culled = False\<rparr> [] ''abc''
     = Inr (\<lparr>this = 1, extensions = [\<lparr>key = ''ssl_cert'', exttype = EXT_USER\<rparr> \<mapsto> Some ''old''],
             culled = False\<rparr>, [])"
  using network_unserialize_returns_at_once
      [of "Serialize_JoinTimer (TimerSettings_layout LittleEndian) 0" defaultdeleter
        "\<lparr>key = ''join_timer'', exttype = EXT_USER\<rparr>"
        "\<lparr>this = 5, extensions = Map.empty, culled = False, usertype = USERTYPE_REMOTE\<rparr>"
        "[]" "''x''"]
    network_unserialize_returns_at_once
      [of Serialize_string defaultdeleter "\<lparr>key = ''ssl_cert'', exttype = EXT_USER\<rparr>"
        "\<lparr>this = 1, extensions = [\<lparr>key = ''ssl_cert'', exttype = EXT_USER\<rparr> \<mapsto> Some ''old''],
          culled = False\<rparr>" "[]" "''abc''"]
  by (rule conjI)

section \<open>Unserializing into a holder\<close>

text \<open>
  Claim C7, as the code has it. For every simple typed item, holder and text, and every
  format other than \<^verbatim>\<open>Network\<close>: if the codec of the item returns a value for the text,
  \<open>unserialize\<close> stores that value in the holder under the item, and hands the pointer it
  displaces to the deleter. In every format, if the codec returns no value, the holder is
  left as it was and nothing is destroyed.
\<close>

theorem unserialize_stores_or_leaves:
  "(format \<noteq> FORMAT_NETWORK \<longrightarrow>
      unserialize serializer format v (Some container) (Some self) = Inr (Some t) \<longrightarrow>
      SimpleExtItem_unserialize serializer Del self format container destroyed v
        = Inr (container\<lparr>extensions := (extensions container)(self \<mapsto> Some t)\<rparr>,
               Del (get_raw self container) destroyed)
      \<and> UnserializableSimpleExtItem_get self
            (container\<lparr>extensions := (extensions container)(self \<mapsto> Some t)\<rparr>) = Some t)
   \<and> (unserialize serializer format v' (Some container) (Some self) = Inr None \<longrightarrow>
      SimpleExtItem_unserialize serializer Del self format container destroyed v'
        = Inr (container, destroyed))"
  by (simp add: SimpleExtItem_unserialize_def UnserializableSimpleExtItem_set_ptr_def
      UnserializableSimpleExtItem_get_def set_raw_def get_raw_def)

theorem unserialize_stores_or_leaves_witness:
  "SimpleExtItem_unserialize Serialize_string defaultdeleter \<lparr>key = ''ssl_cert'', exttype = EXT_USER\<rparr>
      FORMAT_PERSIST
      \<lparr>this = 1, extensions = [\<lparr>key = ''ssl_cert'', exttype = EXT_USER\<rparr> \<mapsto> Some ''old''],
       culled = False\<rparr> [] ''abc''
     = Inr (\<lparr>this = 1, extensions = [\<lparr>key = ''ssl_cert'', exttype = EXT_USER\<rparr> \<mapsto> Some ''abc''],
             culled = False\<rparr>, [''old''])
   \<and> SimpleExtItem_unserialize Serialize_User_ptr defaultdeleter
      \<lparr>key = ''ssl_cert'', exttype = EXT_USER\<rparr> FORMAT_PERSIST
      \<lparr>this = 1, extensions = [\<lparr>key = ''ssl_cert'', exttype = EXT_USER\<rparr> \<mapsto> Some ''old''],
       culled = False\<rparr> [] ''abc''
     = Inr (\<lparr>this = 1, extensions = [\<lparr>key = ''ssl_cert'', exttype = EXT_USER\<rparr> \<mapsto> Some ''old''],
             culled = False\<rparr>, [])"
proof -
  let ?self = "\<lparr>key = ''ssl_cert'', exttype = EXT_USER\<rparr>"
  let ?c = "\<lparr>this = 1, extensions = [?self \<mapsto> Some ''old''], culled = False\<rparr>"
  have fmt: "FORMAT_PERSIST \<noteq> FORMAT_NETWORK" by simp
  have ok: "unserialize Serialize_string FORMAT_PERSIST ''abc'' (Some ?c) (Some ?self)
      = Inr (Some ''abc'')"
    by (simp add: Serialize_string_def)
  have ko: "unserialize (Serialize_User_ptr :: (string, string Extensible) SerializeBase)
      FORMAT_PERSIST ''abc'' (Some ?c) (Some ?self) = Inr None"
    by (simp add: Serialize_User_ptr_def)
  have stored: "SimpleExtItem_unserialize Serialize_string defaultdeleter ?self FORMAT_PERSIST ?c []
      ''abc'' = Inr (\<lparr>this = 1, extensions = [?self \<mapsto> Some ''abc''], culled = False\<rparr>, [''old''])"
    using unserialize_stores_or_leaves [where Del = defaultdeleter and destroyed = "[]",
        THEN conjunct1, THEN mp, THEN mp, OF fmt ok, THEN conjunct1]
    by (simp add: get_raw_def defaultdeleter_def)
  have left: "SimpleExtItem_unserialize Serialize_User_ptr defaultdeleter ?self FORMAT_PERSIST ?c []
      ''abc'' = Inr (?c, [])"
    using unserialize_stores_or_leaves [where Del = defaultdeleter and destroyed = "[]",
        THEN conjunct2, THEN mp, OF ko] .
  from stored left show ?thesis by (rule conjI)
qed

text \<open>
  The claim as the spec words it holds for every format. In the \<^verbatim>\<open>Network\<close> format the
  codec of a string item would return the text as value, and nothing is stored.
\<close>

theorem network_unserialize_counterexample:
  "unserialize Serialize_string FORMAT_NETWORK ''abc''
      (Some \<lparr>this = 1, extensions = Map.empty, culled = False\<rparr>)
      (Some \<lparr>key = ''ssl_cert'', exttype = EXT_USER\<rparr>)
     = Inr (Some ''abc'')
   \<and> SimpleExtItem_unserialize Serialize_string defaultdeleter
        \<lparr>key = ''ssl_cert'', exttype = EXT_USER\<rparr> FORMAT_NETWORK
        \<lparr>this = 1, extensions = Map.empty, culled = False\<rparr> [] ''abc''
     = Inr (\<lparr>this = 1, extensions = Map.empty, culled = False\<rparr>, [])
   \<and> UnserializableSimpleExtItem_get \<lparr>key = ''ssl_cert'', exttype = EXT_USER\<rparr>
        \<lparr>this = 1, extensions = Map.empty :: ExtensionItem \<rightharpoonup> string option, culled = False\<rparr>
     = None"
  by (simp add: Serialize_string_def SimpleExtItem_unserialize_def
      UnserializableSimpleExtItem_get_def get_raw_def)

section \<open>The integer item\<close>

text \<open>
  Claim C10. \<open>unset\<close> of the integer item is \<open>set\<close> with the value zero, the result
  dropped: what \<open>set\<close> would return is the integer that was stored, and \<open>get\<close> returns
  zero afterwards.
\<close>

theorem LocalIntExt_unset_is_set_zero:
  "LocalIntExt_unset self container = snd (LocalIntExt_set self container 0)
   \<and> fst (LocalIntExt_set self container 0) = LocalIntExt_get self container
   \<and> LocalIntExt_get self (LocalIntExt_unset self container) = 0"
  by (simp add: LocalIntExt_unset_def LocalIntExt_set_def LocalIntExt_get_def unset_raw_def
      get_raw_def intptr_of_def)

theorem LocalIntExt_unset_is_set_zero_witness:
  "LocalIntExt_get \<lparr>key = ''count'', exttype = EXT_CHANNEL\<rparr>
      \<lparr>this = 2, extensions = [\<lparr>key = ''count'', exttype = EXT_CHANNEL\<rparr> \<mapsto> Some 7],
       culled = False\<rparr> = 7
   \<and> fst (LocalIntExt_set \<lparr>key = ''count'', exttype = EXT_CHANNEL\<rparr>
      \<lparr>this = 2, extensions = [\<lparr>key = ''count'', exttype = EXT_CHANNEL\<rparr> \<mapsto> Some 7],
       culled = False\<rparr> 0) = 7
   \<and> LocalIntExt_get \<lparr>key = ''count'', exttype = EXT_CHANNEL\<rparr>
      (LocalIntExt_unset \<lparr>key = ''count'', exttype = EXT_CHANNEL\<rparr>
        \<lparr>this = 2, extensions = [\<lparr>key = ''count'', exttype = EXT_CHANNEL\<rparr> \<mapsto> Some 7],
         culled = False\<rparr>) = 0"
proof -
  let ?self = "\<lparr>key = ''count'', exttype = EXT_CHANNEL\<rparr>"
  let ?c = "\<lparr>this = 2, extensions = [?self \<mapsto> Some (7 :: int)], culled = False\<rparr>"
  note law = LocalIntExt_unset_is_set_zero [of ?self ?c]
  have before: "LocalIntExt_get ?self ?c = 7"
    by (simp add: LocalIntExt_get_def get_raw_def intptr_of_def)
  with law have "fst (LocalIntExt_set ?self ?c 0) = 7" by simp
  with before law show ?thesis by blast
qed

section \<open>The join timer and its holder\<close>

lemma FromString_absent:
  "JoinTimer_FromString T base_trigger format v None extItem
     = Inl (ModuleException ''Unable to find user while unserializing JoinTimer object'')"
  by (simp add: JoinTimer_FromString_def)

lemma FromString_remote:
  "usertype u \<noteq> USERTYPE_LOCAL \<Longrightarrow>
   JoinTimer_FromString T base_trigger format v (Some u) extItem
     = Inl (ModuleException ''Attempt to unserialize JoinTimer for remote user'')"
  by (simp add: JoinTimer_FromString_def IS_LOCAL_def)

lemma FromString_Some:
  assumes "JoinTimer_FromString T base_trigger format v container extItem = Inr (Some jt)"
  shows "\<exists>u jtext. container = Some u \<and> usertype u = USERTYPE_LOCAL \<and> extItem = Some jtext
           \<and> user jt = this u \<and> ext jt = jtext"
  using assms
  by (auto simp: JoinTimer_FromString_def IS_LOCAL_def JoinTimer_new_def
      split: option.splits if_splits sum.splits)

lemma JTExt_unserialize_remote:
  assumes "usertype u \<noteq> USERTYPE_LOCAL" and "format \<noteq> FORMAT_NETWORK"
  shows "JTExt_unserialize T base_trigger self format u destroyed v
     = Inl (ModuleException ''Attempt to unserialize JoinTimer for remote user'')"
  using assms FromString_remote [OF assms(1), of T base_trigger format v "Some self"]
  by (simp add: JTExt_unserialize_def SimpleExtItem_unserialize_def Serialize_JoinTimer_def
      Serialize_user_defined_def)

text \<open>
  Claim C8. \<^verbatim>\<open>JoinTimer::FromString\<close> with no holder throws, and with a holder that is
  no local user it throws; by \<open>unserialize\<close> of the item the exception reaches the caller
  in every format but \<^verbatim>\<open>Network\<close>. When \<^verbatim>\<open>FromString\<close> returns a timer, the holder
  is a local user, the item is present, and the timer is bound to both.
\<close>

theorem JoinTimer_context_mismatch:
  "JoinTimer_FromString T base_trigger format v None extItem
     = Inl (ModuleException ''Unable to find user while unserializing JoinTimer object'')
   \<and> (usertype u \<noteq> USERTYPE_LOCAL \<longrightarrow>
        JoinTimer_FromString T base_trigger format v (Some u) extItem
          = Inl (ModuleException ''Attempt to unserialize JoinTimer for remote user'')
        \<and> (format \<noteq> FORMAT_NETWORK \<longrightarrow>
             JTExt_unserialize T base_trigger self format u destroyed v
               = Inl (ModuleException ''Attempt to unserialize JoinTimer for remote user'')))
   \<and> (JoinTimer_FromString T base_trigger format v container' extItem' = Inr (Some jt) \<longrightarrow>
        (\<exists>lu jtext. container' = Some lu \<and> usertype lu = USERTYPE_LOCAL \<and> extItem' = Some jtext
           \<and> user jt = this lu \<and> ext jt = jtext))"
  using FromString_absent [of T base_trigger format v extItem]
    FromString_remote [of u T base_trigger format v extItem]
    JTExt_unserialize_remote [of u format T base_trigger self destroyed v]
    FromString_Some [of T base_trigger format v container' extItem' jt]
  by blast

lemma TimerSettings_layout_ok: "layout_ok (TimerSettings_layout order)"
proof -
  have len32: "length (object_bytes (int_layout order) (i :: 32 word)) = 4" for i
    using int_object_bytes_length [of order i] by (simp add: int_layout_def)
  have len64: "length (object_bytes (int_layout order) (t :: 64 word)) = 8" for t
    using int_object_bytes_length [of order t] by (simp add: int_layout_def)
  have rd32: "from_object_bytes (int_layout order) (object_bytes (int_layout order) (i :: 32 word))
      = Some i" for i
    using int_layout_ok [of order, where 'a = 32] by (simp add: layout_ok_def)
  have rd64: "from_object_bytes (int_layout order) (object_bytes (int_layout order) (t :: 64 word))
      = Some t" for t
    using int_layout_ok [of order, where 'a = 64] by (simp add: layout_ok_def)
  show ?thesis
    by (simp add: layout_ok_def TimerSettings_layout_def len32 len64 rd32 rd64)
qed

lemma dataSer_round_trip:
  "layout_ok T \<Longrightarrow> round_trip (dataSer T) format container extItem (ts, chans)"
  unfolding dataSer_def
  by (rule round_trip_pair) (simp_all add: round_trip_primitive round_trip_string)

lemma JoinTimer_round_trip:
  assumes "layout_ok T" and "usertype u = USERTYPE_LOCAL" and "Timer_trigger jt \<noteq> 0"
    and "user jt = this u" and "ext jt = jtext"
  shows "JoinTimer_FromString T base_trigger format
      (JoinTimer_Serialize T format jt (Some u) (Some jtext)) (Some u) (Some jtext)
    = Inr (Some jt)"
proof -
  let ?pair = "(\<lparr>interval = Timer_interval jt, trigger = Timer_trigger jt\<rparr>, channels jt)"
  have "unserialize (dataSer T) format
      (serialize (dataSer T) format ?pair (Some u) (Some jtext)) (Some u) (Some jtext)
    = Inr (Some ?pair)"
    using dataSer_round_trip [OF assms(1), of format "Some u" "Some jtext"]
    by (simp add: round_trip_def serializeStr_def)
  with assms(2-) show ?thesis
    by (simp add: JoinTimer_FromString_def JoinTimer_Serialize_def IS_LOCAL_def JoinTimer_new_def)
qed

theorem JoinTimer_context_mismatch_witness:
  "JoinTimer_FromString (TimerSettings_layout LittleEndian) 0 FORMAT_PERSIST ''x''
      (Some \<lparr>this = 5, extensions = Map.empty :: ExtensionItem \<rightharpoonup> JoinTimer option,
             culled = False, usertype = USERTYPE_REMOTE\<rparr>)
      (Some \<lparr>key = ''join_timer'', exttype = EXT_USER\<rparr>)
     = Inl (ModuleException ''Attempt to unserialize JoinTimer for remote user'')
   \<and> JTExt_unserialize (TimerSettings_layout LittleEndian) 0 \<lparr>key = ''join_timer'', exttype = EXT_USER\<rparr>
      FORMAT_PERSIST
      \<lparr>this = 5, extensions = Map.empty, culled = False, usertype = USERTYPE_REMOTE\<rparr> [] ''x''
     = Inl (ModuleException ''Attempt to unserialize JoinTimer for remote user'')
   \<and> JoinTimer_FromString (TimerSettings_layout LittleEndian) 0 FORMAT_PERSIST
        (JoinTimer_Serialize (TimerSettings_layout LittleEndian) FORMAT_PERSIST
          \<lparr>user = 5, channels = ''#a,#b'', ext = \<lparr>key = ''join_timer'', exttype = EXT_USER\<rparr>,
           Timer_interval = 30, Timer_trigger = 1000\<rparr>
          (Some \<lparr>this = 5, extensions = Map.empty :: ExtensionItem \<rightharpoonup> JoinTimer option,
                 culled = False, usertype = USERTYPE_LOCAL\<rparr>)
          (Some \<lparr>key = ''join_timer'', exttype = EXT_USER\<rparr>))
        (Some \<lparr>this = 5, extensions = Map.empty :: ExtensionItem \<rightharpoonup> JoinTimer option,
               culled = False, usertype = USERTYPE_LOCAL\<rparr>)
        (Some \<lparr>key = ''join_timer'', exttype = EXT_USER\<rparr>)
      = Inr (Some \<lparr>user = 5, channels = ''#a,#b'',
          ext = \<lparr>key = ''join_timer'', exttype = EXT_USER\<rparr>,
          Timer_interval = 30, Timer_trigger = 1000\<rparr>)
   \<and> (\<exists>lu jtext.
        Some \<lparr>this = 5, extensions = Map.empty :: ExtensionItem \<rightharpoonup> JoinTimer option,
              culled = False, usertype = USERTYPE_LOCAL\<rparr> = Some lu
        \<and> usertype lu = USERTYPE_LOCAL
        \<and> Some \<lparr>key = ''join_timer'', exttype = EXT_USER\<rparr> = Some jtext
        \<and> this lu = 5 \<and> jtext = \<lparr>key = ''join_timer'', exttype = EXT_USER\<rparr>)"
proof -
  let ?ext = "\<lparr>key = ''join_timer'', exttype = EXT_USER\<rparr>"
  let ?remote = "\<lparr>this = 5, extensions = Map.empty :: ExtensionItem \<rightharpoonup> JoinTimer option,
      culled = False, usertype = USERTYPE_REMOTE\<rparr>"
  let ?local = "\<lparr>this = 5, extensions = Map.empty :: ExtensionItem \<rightharpoonup> JoinTimer option,
      culled = False, usertype = USERTYPE_LOCAL\<rparr>"
  let ?jt = "\<lparr>user = 5, channels = ''#a,#b'', ext = ?ext, Timer_interval = 30,
      Timer_trigger = 1000\<rparr>"
  let ?T = "TimerSettings_layout LittleEndian"
  have remote: "usertype ?remote \<noteq> USERTYPE_LOCAL" by simp
  have fmt: "FORMAT_PERSIST \<noteq> FORMAT_NETWORK" by simp
  note r = JoinTimer_context_mismatch [where u = ?remote and format = FORMAT_PERSIST,
      THEN conjunct2, THEN conjunct1, THEN mp, OF remote]
  note r1 = r [THEN conjunct1]
  note r2 = r [THEN conjunct2, THEN mp, OF fmt]
  have ok: "JoinTimer_FromString ?T 0 FORMAT_PERSIST
      (JoinTimer_Serialize ?T FORMAT_PERSIST ?jt (Some ?local) (Some ?ext)) (Some ?local) (Some ?ext)
    = Inr (Some ?jt)"
    by (rule JoinTimer_round_trip) (simp_all add: TimerSettings_layout_ok)
  from JoinTimer_context_mismatch [THEN conjunct2, THEN conjunct2, THEN mp, OF ok]
  have l: "\<exists>lu jtext. Some ?local = Some lu \<and> usertype lu = USERTYPE_LOCAL \<and> Some ?ext = Some jtext
      \<and> user ?jt = this lu \<and> ext ?jt = jtext" .
  then have "\<exists>lu jtext. Some ?local = Some lu \<and> usertype lu = USERTYPE_LOCAL \<and> Some ?ext = Some jtext
      \<and> this lu = 5 \<and> jtext = ?ext"
    by auto
  with r1 r2 ok show ?thesis by blast
qed

section \<open>Round trip of the value codecs\<close>

text \<open>
  Claim C4. The sequence codec over 32-bit integers, in the \<^verbatim>\<open>Internal\<close> format, gives
  the list \<open>[1, 2, 300]\<close> back, in either byte order. More generally, in the formats
  \<^verbatim>\<open>Internal\<close> and \<^verbatim>\<open>Persist\<close>, unserializing what was serialized gives the value
  back for every supported shape: strings, the fixed-width integers, booleans, plain data
  whose object representation reads back, pairs of values that round-trip, and sequences
  (\<^verbatim>\<open>std::vector\<close> and \<^verbatim>\<open>std::deque\<close>), sets and maps of elements that round-trip.
  A container of any other type, a multiset or a multimap among them, is filled with its
  \<^verbatim>\<open>push_back\<close>: it round-trips when its elements do and pushing them back in the order
  of iteration rebuilds it. A user-defined type round-trips when its own two functions do.
\<close>

theorem value_codecs_round_trip:
  assumes "format = FORMAT_INTERNAL \<or> format = FORMAT_PERSIST"
  shows
    "round_trip (Serialize_vector (Serialize_int order is_signed :: (int32_t, 'h) SerializeBase))
        FORMAT_INTERNAL container extItem [1, 2, 300]
     \<and> round_trip Serialize_string format container extItem s
     \<and> round_trip (Serialize_int order is_signed') format container extItem w
     \<and> round_trip Serialize_bool format container extItem b
     \<and> (layout_ok T \<longrightarrow> round_trip (SerializePrimitive T) format container extItem p)
     \<and> (round_trip ser1 format container extItem x1 \<longrightarrow>
          round_trip ser2 format container extItem x2 \<longrightarrow>
          round_trip (Serialize_pair ser1 ser2) format container extItem (x1, x2))
     \<and> ((\<forall>x\<in>set xs. round_trip ser format container extItem x) \<longrightarrow>
          round_trip (Serialize_vector ser) format container extItem xs)
     \<and> ((\<forall>x\<in>set ys. round_trip ser3 format container extItem x) \<longrightarrow> unique_sorted lt ys \<longrightarrow>
          round_trip (SerializeContainer (Inserter_flat_set lt) ser3) format container extItem ys)
     \<and> ((\<forall>x\<in>set m. round_trip ser4 format container extItem x) \<longrightarrow>
          unique_sorted (key_comp lt') m \<longrightarrow>
          round_trip (SerializeContainer (Inserter_flat_map lt') ser4) format container extItem m)
     \<and> ((\<forall>x\<in>set (begin_end c). round_trip ser5 format container extItem x) \<longrightarrow>
          rebuilds (Inserter_primary begin_end new_T push_back) c \<longrightarrow>
          round_trip (SerializeContainer (Inserter_primary begin_end new_T push_back) ser5)
            format container extItem c)
     \<and> (T_FromString format (T_Serialize format y container extItem) container extItem
            = Inr (Some y) \<longrightarrow>
          round_trip (Serialize_user_defined T_Serialize T_FromString) format container extItem y)"
proof -
  from assms have user: "format \<noteq> FORMAT_USER" by auto
  have example:
    "round_trip (Serialize_vector (Serialize_int order is_signed :: (int32_t, 'h) SerializeBase))
        FORMAT_INTERNAL container extItem [1, 2, 300]"
    by (rule round_trip_vector) (simp add: round_trip_int)
  have ints: "round_trip (Serialize_int order is_signed') format container extItem w"
    using user by (rule round_trip_int)
  have bools: "round_trip Serialize_bool format container extItem b"
    using user by (rule round_trip_bool)
  show ?thesis
    using example ints bools
    by (simp add: round_trip_string round_trip_primitive round_trip_pair round_trip_vector
        round_trip_flat_set Inserter_flat_map_def round_trip_primary round_trip_user_defined)
qed

theorem value_codecs_round_trip_witness:
  "round_trip (Serialize_vector (Serialize_int LittleEndian True :: (int32_t, unit) SerializeBase))
      FORMAT_INTERNAL None None [1, 2, 300]
   \<and> round_trip
        (Serialize_vector
          (Serialize_pair (Serialize_int BigEndian False :: (int32_t, unit) SerializeBase)
            Serialize_string))
        FORMAT_PERSIST None None [(30, ''general,ops''), (300, [NUL, ESC, CHR ''0''])]
   \<and> round_trip (SerializePrimitive bool_layout :: (bool, unit) SerializeBase)
        FORMAT_PERSIST None None True
   \<and> round_trip
        (SerializeContainer (Inserter_flat_set (<))
          (Serialize_int BigEndian False :: (int32_t, unit) SerializeBase))
        FORMAT_PERSIST None None [1, 2, 300]
   \<and> round_trip
        (SerializeContainer (Inserter_flat_map (<))
          (Serialize_pair (Serialize_int BigEndian False :: (int32_t, unit) SerializeBase)
            Serialize_string))
        FORMAT_PERSIST None None [(30, ''general,ops''), (300, [NUL, ESC, CHR ''0''])]
   \<and> round_trip
        (SerializeContainer (Inserter_primary (\<lambda>v. v) [] (\<lambda>cont v. cont @ [v]))
          (Serialize_int BigEndian False :: (int32_t, unit) SerializeBase))
        FORMAT_PERSIST None None [2, 2, 1]
   \<and> round_trip
        (Serialize_user_defined (JoinTimer_Serialize (TimerSettings_layout LittleEndian))
          (JoinTimer_FromString (TimerSettings_layout LittleEndian) 0))
        FORMAT_PERSIST
        (Some \<lparr>this = 5, extensions = Map.empty :: ExtensionItem \<rightharpoonup> JoinTimer option,
               culled = False, usertype = USERTYPE_LOCAL\<rparr>)
        (Some \<lparr>key = ''join_timer'', exttype = EXT_USER\<rparr>)
        \<lparr>user = 5, channels = ''#a,#b'', ext = \<lparr>key = ''join_timer'', exttype = EXT_USER\<rparr>,
         Timer_interval = 30, Timer_trigger = 1000\<rparr>"
proof -
  have fmt: "FORMAT_PERSIST = FORMAT_INTERNAL \<or> FORMAT_PERSIST = FORMAT_PERSIST" by simp
  note rt = value_codecs_round_trip [OF fmt, where container = "None :: unit option" and extItem = None]
  note example = rt [THEN conjunct1]
  note strings = rt [THEN conjunct2, THEN conjunct1]
  note ints = rt [THEN conjunct2, THEN conjunct2, THEN conjunct1]
  note plain = rt [THEN conjunct2, THEN conjunct2, THEN conjunct2, THEN conjunct2, THEN conjunct1,
    THEN mp]
  note pairs = rt [THEN conjunct2, THEN conjunct2, THEN conjunct2, THEN conjunct2, THEN conjunct2,
    THEN conjunct1, THEN mp, THEN mp]
  note vectors = rt [THEN conjunct2, THEN conjunct2, THEN conjunct2, THEN conjunct2,
    THEN conjunct2, THEN conjunct2, THEN conjunct1, THEN mp]
  note sets = rt [THEN conjunct2, THEN conjunct2, THEN conjunct2, THEN conjunct2,
    THEN conjunct2, THEN conjunct2, THEN conjunct2, THEN conjunct1, THEN mp, THEN mp]
  note maps = rt [THEN conjunct2, THEN conjunct2, THEN conjunct2, THEN conjunct2,
    THEN conjunct2, THEN conjunct2, THEN conjunct2, THEN conjunct2, THEN conjunct1,
    THEN mp, THEN mp]
  note others = rt [THEN conjunct2, THEN conjunct2, THEN conjunct2, THEN conjunct2,
    THEN conjunct2, THEN conjunct2, THEN conjunct2, THEN conjunct2, THEN conjunct2,
    THEN conjunct1, THEN mp, THEN mp]
  let ?ext = "\<lparr>key = ''join_timer'', exttype = EXT_USER\<rparr>"
  let ?local = "\<lparr>this = 5, extensions = Map.empty :: ExtensionItem \<rightharpoonup> JoinTimer option,
      culled = False, usertype = USERTYPE_LOCAL\<rparr>"
  let ?jt = "\<lparr>user = 5, channels = ''#a,#b'', ext = ?ext, Timer_interval = 30,
      Timer_trigger = 1000\<rparr>"
  let ?T = "TimerSettings_layout LittleEndian"
  note user_defined = value_codecs_round_trip [OF fmt, where container = "Some ?local"
      and extItem = "Some ?ext" and y = ?jt and T_Serialize = "JoinTimer_Serialize ?T"
      and T_FromString = "JoinTimer_FromString ?T 0",
    THEN conjunct2, THEN conjunct2, THEN conjunct2, THEN conjunct2,
    THEN conjunct2, THEN conjunct2, THEN conjunct2, THEN conjunct2, THEN conjunct2,
    THEN conjunct2, THEN mp]
  have pair: "round_trip
      (Serialize_pair (Serialize_int BigEndian False :: (int32_t, unit) SerializeBase)
        Serialize_string) FORMAT_PERSIST None None (a, b)" for a b
    by (rule pairs) (rule ints, rule strings)
  have c2: "round_trip
      (Serialize_vector
        (Serialize_pair (Serialize_int BigEndian False :: (int32_t, unit) SerializeBase)
          Serialize_string))
      FORMAT_PERSIST None None [(30, ''general,ops''), (300, [NUL, ESC, CHR ''0''])]"
    by (rule vectors) (simp add: pair)
  have c3: "round_trip (SerializePrimitive bool_layout :: (bool, unit) SerializeBase)
      FORMAT_PERSIST None None True"
    by (rule plain) (rule bool_layout_ok)
  have c4: "round_trip
      (SerializeContainer (Inserter_flat_set (<))
        (Serialize_int BigEndian False :: (int32_t, unit) SerializeBase))
      FORMAT_PERSIST None None [1, 2, 300]"
    by (rule sets) (simp_all add: ints unique_sorted_def)
  have c5: "round_trip
      (SerializeContainer (Inserter_flat_map (<))
        (Serialize_pair (Serialize_int BigEndian False :: (int32_t, unit) SerializeBase)
          Serialize_string))
      FORMAT_PERSIST None None [(30, ''general,ops''), (300, [NUL, ESC, CHR ''0''])]"
    by (rule maps) (simp_all add: pair unique_sorted_def key_comp_def)
  have c6: "round_trip
      (SerializeContainer (Inserter_primary (\<lambda>v. v) [] (\<lambda>cont v. cont @ [v]))
        (Serialize_int BigEndian False :: (int32_t, unit) SerializeBase))
      FORMAT_PERSIST None None [2, 2, 1]"
    by (rule others) (simp_all add: ints rebuilds_def Inserter_primary_def)
  have "JoinTimer_FromString ?T 0 FORMAT_PERSIST
      (JoinTimer_Serialize ?T FORMAT_PERSIST ?jt (Some ?local) (Some ?ext)) (Some ?local) (Some ?ext)
    = Inr (Some ?jt)"
    by (rule JoinTimer_round_trip) (simp_all add: TimerSettings_layout_ok)
  then have c7: "round_trip
      (Serialize_user_defined (JoinTimer_Serialize ?T) (JoinTimer_FromString ?T 0))
      FORMAT_PERSIST (Some ?local) (Some ?ext) ?jt"
    by (rule user_defined)
  from example c2 c3 c4 c5 c6 c7 show ?thesis by (intro conjI)
qed

end
